theory Spec2Isabelle
  imports Complex_Main "HOL-Library.Sublist" "HOL-Library.Multiset"
begin

section \<open>Values, errors and the environment\<close>

text \<open>
  The gateway is \<^verbatim>\<open>src/main.py\<close>. A Python \<^verbatim>\<open>str\<close> is modelled by the list of its
  UTF-8 bytes, so every ASCII character is one \<open>char\<close> and a character beyond ASCII
  is a run of bytes from \<open>0x80\<close> upwards.
\<close>

abbreviation (input) nl :: string where
  "nl \<equiv> [CHR 0x0A]"

abbreviation (input) dq :: string where
  "dq \<equiv> [CHR 0x22]"

abbreviation (input) sq :: string where
  "sq \<equiv> [CHR 0x27]"

text \<open>A \<^verbatim>\<open>datetime.date\<close>: year, month, day.\<close>

datatype date = Date (year: int) (month: int) (day: int)

text \<open>
  What travels between the gateway and the store: the Python values bound to the
  placeholders of a statement, and the column values of a result row. \<open>Null\<close> is
  Python's \<^verbatim>\<open>None\<close> and SQL's \<^verbatim>\<open>NULL\<close>; \<open>R\<close> is an exact decimal
  (\<^verbatim>\<open>numeric\<close>), \<open>TS\<close> a point in time counted in seconds.
\<close>

datatype val = Null | I int | R rat | T string | B bool | D date | TS int

text \<open>A result row as \<^verbatim>\<open>dict_row\<close> builds it: column names with their values, in
  the order of the select list.\<close>

type_synonym row = "(string \<times> val) list"

definition col :: "row \<Rightarrow> string \<Rightarrow> val" where
  "col r c = (case map_of r c of None \<Rightarrow> Null | Some v \<Rightarrow> v)"

text \<open>
  The failures of the gateway. The source raises \<^verbatim>\<open>ValueError\<close> with a message for
  each caller-input error and \<^verbatim>\<open>RuntimeError\<close> for the missing connection string;
  the constructors are the conditions the message tells apart:
  \<^item> \<open>InvalidIdentifier name\<close>: \<^verbatim>\<open>ValueError(f"Invalid identifier: {name}")\<close>;
  \<^item> \<open>InvalidDate\<close>: the \<^verbatim>\<open>ValueError\<close> of \<^verbatim>\<open>date.fromisoformat\<close>;
  \<^item> \<open>MissingTimestamp\<close>: \<^verbatim>\<open>ValueError("timestamp is required")\<close>;
  \<^item> \<open>OutOfRange msg\<close>: \<^verbatim>\<open>ValueError("... must be between 1 and ...")\<close>;
  \<^item> \<open>MissingRequiredField msg\<close>: \<^verbatim>\<open>ValueError("... is required")\<close>;
  \<^item> \<open>ConfigurationMissing\<close>: the \<^verbatim>\<open>RuntimeError\<close> of \<^verbatim>\<open>get_conn\<close>;
  \<^item> \<open>StoreError msg\<close>: an error reported by the store or its driver;
  \<^item> \<open>IndexError\<close>: Python's, for the first column of a row that has none.
\<close>

datatype error =
    InvalidIdentifier string
  | InvalidDate
  | MissingTimestamp
  | OutOfRange string
  | MissingRequiredField string
  | ConfigurationMissing
  | StoreError string
  | IndexError

text \<open>The two settings read from the process environment: \<^verbatim>\<open>DATABASE_URL\<close> (may be
  unset) and \<^verbatim>\<open>DB_SCHEMA\<close> (a string, \<^verbatim>\<open>hospital_crm\<close> when unset).\<close>

record env =
  database_url :: "string option"
  db_schema :: string

section \<open>Identifier validation\<close>

definition is_ident_start :: "char \<Rightarrow> bool" where
  "is_ident_start c \<longleftrightarrow>
     (let n = (of_char c :: nat)
      in (97 \<le> n \<and> n \<le> 122) \<or> (65 \<le> n \<and> n \<le> 90) \<or> n = 95)"

definition is_ident_char :: "char \<Rightarrow> bool" where
  "is_ident_char c \<longleftrightarrow>
     (let n = (of_char c :: nat)
      in (97 \<le> n \<and> n \<le> 122) \<or> (65 \<le> n \<and> n \<le> 90) \<or> (48 \<le> n \<and> n \<le> 57) \<or> n = 95)"

text \<open>
  \<^verbatim>\<open>_ident_re.match(name)\<close> for \<^verbatim>\<open>^[a-zA-Z_][a-zA-Z0-9_]*$\<close>: one character of the
  first class, then the longest run of the second class, then \<^verbatim>\<open>$\<close>. Without
  \<^verbatim>\<open>re.MULTILINE\<close>, Python's \<^verbatim>\<open>$\<close> matches at the end of the string and also just
  before a newline that is the last character of the string. Giving back part of the
  run never helps: what follows would start with a character of the class.
\<close>

fun ident_re_match :: "string \<Rightarrow> bool" where
  "ident_re_match [] = False"
| "ident_re_match (c # cs) =
     (is_ident_start c \<and>
      (let rest = dropWhile is_ident_char cs in rest = [] \<or> rest = nl))"

definition validate_ident :: "string \<Rightarrow> error + string" where
  "validate_ident name =
     (if \<not> ident_re_match name then Inl (InvalidIdentifier name) else Inr name)"

text \<open>The identifier grammar as the specification words it: a letter or underscore,
  then letters, digits and underscores, and nothing else.\<close>

definition is_identifier :: "string \<Rightarrow> bool" where
  "is_identifier s \<longleftrightarrow>
     (case s of [] \<Rightarrow> False | c # cs \<Rightarrow> is_ident_start c \<and> list_all is_ident_char cs)"

definition schema :: "env \<Rightarrow> error + string" where
  "schema e = validate_ident (db_schema e)"

definition q_table :: "env \<Rightarrow> string \<Rightarrow> error + string" where
  "q_table e table =
     (case schema e of
        Inl err \<Rightarrow> Inl err
      | Inr s \<Rightarrow>
          (case validate_ident table of
             Inl err \<Rightarrow> Inl err
           | Inr t \<Rightarrow> Inr (dq @ s @ dq @ ''.'' @ dq @ t @ dq)))"

section \<open>Parameter normalisation\<close>

subsection \<open>Whitespace and \<^verbatim>\<open>str.strip\<close>\<close>

text \<open>
  The characters \<^verbatim>\<open>str.strip()\<close> removes are those of \<^verbatim>\<open>str.isspace\<close>, each given
  here by its UTF-8 bytes: U+0009 to U+000D, U+001C to U+0020, U+0085, U+00A0,
  U+1680, U+2000 to U+200A, U+2028, U+2029, U+202F, U+205F and U+3000.
\<close>

definition whitespace :: "string list" where
  "whitespace =
     [[CHR 0x09], [CHR 0x0A], [CHR 0x0B], [CHR 0x0C], [CHR 0x0D],
      [CHR 0x1C], [CHR 0x1D], [CHR 0x1E], [CHR 0x1F], [CHR 0x20],
      [CHR 0xC2, CHR 0x85], [CHR 0xC2, CHR 0xA0],
      [CHR 0xE1, CHR 0x9A, CHR 0x80],
      [CHR 0xE2, CHR 0x80, CHR 0x80], [CHR 0xE2, CHR 0x80, CHR 0x81],
      [CHR 0xE2, CHR 0x80, CHR 0x82], [CHR 0xE2, CHR 0x80, CHR 0x83],
      [CHR 0xE2, CHR 0x80, CHR 0x84], [CHR 0xE2, CHR 0x80, CHR 0x85],
      [CHR 0xE2, CHR 0x80, CHR 0x86], [CHR 0xE2, CHR 0x80, CHR 0x87],
      [CHR 0xE2, CHR 0x80, CHR 0x88], [CHR 0xE2, CHR 0x80, CHR 0x89],
      [CHR 0xE2, CHR 0x80, CHR 0x8A],
      [CHR 0xE2, CHR 0x80, CHR 0xA8], [CHR 0xE2, CHR 0x80, CHR 0xA9],
      [CHR 0xE2, CHR 0x80, CHR 0xAF],
      [CHR 0xE2, CHR 0x81, CHR 0x9F],
      [CHR 0xE3, CHR 0x80, CHR 0x80]]"

text \<open>Removing, from the front, every leading character of a table of encodings.\<close>

function strip_leading :: "string list \<Rightarrow> string \<Rightarrow> string" where
  "strip_leading tbl s =
     (case find (\<lambda>w. prefix w s) tbl of
        None \<Rightarrow> s
      | Some w \<Rightarrow> if w = [] then s else strip_leading tbl (drop (length w) s))"
  by pat_completeness auto
termination
proof (relation "measure (\<lambda>(tbl, s). length s)")
  show "wf (measure (\<lambda>(tbl, s). length s))" by simp
next
  fix tbl :: "string list" and s w :: string
  assume f: "find (\<lambda>w. prefix w s) tbl = Some w" and ne: "w \<noteq> []"
  from f have "prefix w s" by (auto simp: find_Some_iff)
  with ne have "s \<noteq> []" by auto
  with ne show "((tbl, drop (length w) s), (tbl, s)) \<in> measure (\<lambda>(tbl, s). length s)"
    by simp
qed

declare strip_leading.simps [simp del]

definition lstrip :: "string \<Rightarrow> string" where
  "lstrip s = strip_leading whitespace s"

definition rstrip :: "string \<Rightarrow> string" where
  "rstrip s = rev (strip_leading (map rev whitespace) (rev s))"

definition strip :: "string \<Rightarrow> string" where
  "strip s = rstrip (lstrip s)"

text \<open>A string that is empty or consists only of whitespace characters.\<close>

definition blank :: "string \<Rightarrow> bool" where
  "blank s \<longleftrightarrow> (\<exists>ws. list_all (\<lambda>w. w \<in> set whitespace) ws \<and> s = concat ws)"

subsection \<open>Timestamps\<close>

definition parse_ts :: "string \<Rightarrow> error + string" where
  "parse_ts v = (if v = [] \<or> strip v = [] then Inl MissingTimestamp else Inr (strip v))"

subsection \<open>Dates\<close>

text \<open>
  \<^verbatim>\<open>_parse_date\<close> hands every string but the empty one to \<^verbatim>\<open>date.fromisoformat\<close>
  of the standard library. The model follows CPython 3.11 and later, where the
  function reads the UTF-8 bytes of the string: the length must be 7, 8 or 10 bytes;
  a four-digit year; an optional \<^verbatim>\<open>-\<close>; then either \<^verbatim>\<open>W\<close>, a two-digit ISO week
  and an optional one-digit weekday, or a two-digit month and a two-digit day, with
  separators used consistently. Bytes after the last field read are not looked at.
  The fields then go through the range checks of the \<^verbatim>\<open>date\<close> constructor.
  (Up to CPython 3.10 the function accepted the ten-byte form
  \<^verbatim>\<open>YYYY-MM-DD\<close> only.)
\<close>

definition is_digit :: "char \<Rightarrow> bool" where
  "is_digit c \<longleftrightarrow> 48 \<le> (of_char c :: nat) \<and> (of_char c :: nat) \<le> 57"

definition digit_val :: "char \<Rightarrow> int" where
  "digit_val c = int (of_char c) - 48"

text \<open>\<^verbatim>\<open>parse_digits\<close>: read exactly \<open>n\<close> decimal digits into \<open>var\<close>; the rest of the
  bytes is returned with the value.\<close>

fun parse_digits :: "nat \<Rightarrow> int \<Rightarrow> string \<Rightarrow> (int \<times> string) option" where
  "parse_digits 0 var s = Some (var, s)"
| "parse_digits (Suc n) var [] = None"
| "parse_digits (Suc n) var (c # cs) =
     (if is_digit c then parse_digits n (var * 10 + digit_val c) cs else None)"

definition is_leap :: "int \<Rightarrow> bool" where
  "is_leap y \<longleftrightarrow> y mod 4 = 0 \<and> (y mod 100 \<noteq> 0 \<or> y mod 400 = 0)"

definition days_in_month :: "int \<Rightarrow> int \<Rightarrow> int" where
  "days_in_month y m =
     (if m = 2 \<and> is_leap y then 29
      else [0, 31, 28, 31, 30, 31, 30, 31, 31, 30, 31, 30, 31] ! nat m)"

definition days_before_month :: "int \<Rightarrow> int \<Rightarrow> int" where
  "days_before_month y m =
     [0, 0, 31, 59, 90, 120, 151, 181, 212, 243, 273, 304, 334] ! nat m
       + (if m > 2 \<and> is_leap y then 1 else 0)"

definition days_before_year :: "int \<Rightarrow> int" where
  "days_before_year y = (let p = y - 1 in p * 365 + p div 4 - p div 100 + p div 400)"

definition ymd_to_ord :: "int \<Rightarrow> int \<Rightarrow> int \<Rightarrow> int" where
  "ymd_to_ord y m d = days_before_year y + days_before_month y m + d"

definition weekday :: "int \<Rightarrow> int \<Rightarrow> int \<Rightarrow> int" where
  "weekday y m d = (ymd_to_ord y m d + 6) mod 7"

definition iso_week1_monday :: "int \<Rightarrow> int" where
  "iso_week1_monday y =
     (let first_day = ymd_to_ord y 1 1;
          first_weekday = (first_day + 6) mod 7;
          week1_monday = first_day - first_weekday
      in if first_weekday > 3 then week1_monday + 7 else week1_monday)"

definition ord_to_ymd :: "int \<Rightarrow> int \<times> int \<times> int" where
  "ord_to_ymd ordinal =
     (let n = ordinal - 1;
          n400 = n div 146097; n = n mod 146097;
          n100 = n div 36524; n = n mod 36524;
          n4 = n div 1461; n = n mod 1461;
          n1 = n div 365; n = n mod 365;
          y = n400 * 400 + 1 + n100 * 100 + n4 * 4 + n1
      in if n1 = 4 \<or> n100 = 4 then (y - 1, 12, 31)
         else
           (let leapyear = (n1 = 3 \<and> (n4 \<noteq> 24 \<or> n100 = 3));
                m = (n + 50) div 32;
                preceding = [0, 0, 31, 59, 90, 120, 151, 181, 212, 243, 273, 304, 334] ! nat m
                              + (if m > 2 \<and> leapyear then 1 else 0)
            in if preceding > n
               then (y, m - 1, n - (preceding - days_in_month y (m - 1)) + 1)
               else (y, m, n - preceding + 1)))"

definition iso_to_ymd :: "int \<Rightarrow> int \<Rightarrow> int \<Rightarrow> (int \<times> int \<times> int) option" where
  "iso_to_ymd iso_year iso_week iso_day =
     (if (iso_week \<le> 0 \<or> iso_week \<ge> 53) \<and>
         \<not> (iso_week = 53 \<and>
            (weekday iso_year 1 1 = 3 \<or> (weekday iso_year 1 1 = 2 \<and> is_leap iso_year)))
      then None
      else if iso_day \<le> 0 \<or> iso_day \<ge> 8 then None
      else Some (ord_to_ymd (iso_week1_monday iso_year + ((iso_week - 1) * 7 + iso_day - 1))))"

text \<open>The byte at the read position; past the end the C string shows its
  terminating NUL.\<close>

definition peek :: "string \<Rightarrow> char" where
  "peek s = (case s of [] \<Rightarrow> CHR 0x00 | c # _ \<Rightarrow> c)"

definition parse_isoformat_date :: "string \<Rightarrow> (int \<times> int \<times> int) option" where
  "parse_isoformat_date dtstr =
     (case parse_digits 4 0 dtstr of
        None \<Rightarrow> None
      | Some (y, cur) \<Rightarrow>
          (let uses_separator = (peek cur = CHR ''-'');
               cur = (if uses_separator then tl cur else cur)
           in if peek cur = CHR ''W'' then
                (case parse_digits 2 0 (tl cur) of
                   None \<Rightarrow> None
                 | Some (iso_week, cur) \<Rightarrow>
                     if cur \<noteq> [] then
                       (if uses_separator \<and> peek cur \<noteq> CHR ''-'' then None
                        else
                          (case parse_digits 1 0 (if uses_separator then tl cur else cur) of
                             None \<Rightarrow> None
                           | Some (iso_day, _) \<Rightarrow> iso_to_ymd y iso_week iso_day))
                     else iso_to_ymd y iso_week 1)
              else
                (case parse_digits 2 0 cur of
                   None \<Rightarrow> None
                 | Some (m, cur) \<Rightarrow>
                     if uses_separator \<and> peek cur \<noteq> CHR ''-'' then None
                     else
                       (case parse_digits 2 0 (if uses_separator then tl cur else cur) of
                          None \<Rightarrow> None
                        | Some (d, _) \<Rightarrow> Some (y, m, d)))))"

text \<open>The range checks of the \<^verbatim>\<open>date\<close> constructor.\<close>

definition new_date :: "int \<Rightarrow> int \<Rightarrow> int \<Rightarrow> error + date" where
  "new_date y m d =
     (if y < 1 \<or> 9999 < y then Inl InvalidDate
      else if m < 1 \<or> 12 < m then Inl InvalidDate
      else if d < 1 \<or> days_in_month y m < d then Inl InvalidDate
      else Inr (Date y m d))"

definition fromisoformat :: "string \<Rightarrow> error + date" where
  "fromisoformat dtstr =
     (if length dtstr = 7 \<or> length dtstr = 8 \<or> length dtstr = 10 then
        (case parse_isoformat_date dtstr of
           None \<Rightarrow> Inl InvalidDate
         | Some (y, m, d) \<Rightarrow> new_date y m d)
      else Inl InvalidDate)"

definition parse_date :: "string option \<Rightarrow> error + date option" where
  "parse_date v =
     (case v of
        None \<Rightarrow> Inr None
      | Some s \<Rightarrow>
          if s = [] then Inr None
          else (case fromisoformat s of Inl e \<Rightarrow> Inl e | Inr d \<Rightarrow> Inr (Some d)))"

text \<open>A year, a month and a day that name a day of the calendar, and the number a
  string of decimal digits writes: the words the results on dates are stated in.\<close>

definition calendar_date :: "int \<Rightarrow> int \<Rightarrow> int \<Rightarrow> bool" where
  "calendar_date y m d \<longleftrightarrow>
     1 \<le> y \<and> y \<le> 9999 \<and> 1 \<le> m \<and> m \<le> 12 \<and> 1 \<le> d \<and> d \<le> days_in_month y m"

definition decimal :: "string \<Rightarrow> int" where
  "decimal s = foldl (\<lambda>v c. v * 10 + digit_val c) 0 s"

section \<open>The store\<close>

text \<open>
  The store is the external relational database. The gateway only sends it statement
  texts with bound parameters and reads result rows back, so the store is modelled by
  what it holds and what it answers:
  \<^item> \<open>tables\<close>: the rows of each relation, by schema and table name, a row giving
    its columns by name;
  \<^item> \<open>next_id\<close>: the sequence a relation draws the key of a new row from;
  \<^item> \<open>clock\<close>: the value of \<^verbatim>\<open>now()\<close>;
  \<^item> \<open>ts_in\<close>: the store's own reading of timestamp text (\<open>None\<close>: rejected);
  \<^item> \<open>reachable\<close>: whether a connection can be opened;
  \<^item> \<open>casefold\<close>: the lower-casing of the store's collation, which \<^verbatim>\<open>ILIKE\<close>
    applies to the pattern and to the text;
  \<^item> \<open>text_less\<close>: the order of the store's collation on text, which
    \<^verbatim>\<open>ORDER BY\<close> sorts text by;
  \<^item> \<open>answers\<close>: the result set of each statement that is given no relational
    meaning below (the read-only listings over appointments, cases, claims and so
    on); it is arbitrary, so what is proved of those operations holds whatever the
    store returns;
  \<^item> \<open>received\<close>: the statements the store has been sent, oldest first, each with
    its bound parameters.
\<close>

record store =
  tables :: "string \<times> string \<Rightarrow> row list"
  next_id :: "string \<times> string \<Rightarrow> int"
  clock :: int
  ts_in :: "string \<Rightarrow> int option"
  reachable :: bool
  casefold :: "string \<Rightarrow> string"
  text_less :: "string \<Rightarrow> string \<Rightarrow> bool"
  answers :: "string \<Rightarrow> val list \<Rightarrow> row list"
  received :: "(string \<times> val list) list"

text \<open>\<^verbatim>\<open>get_conn\<close>: no connection string is a \<^verbatim>\<open>RuntimeError\<close>; otherwise
  \<^verbatim>\<open>psycopg.connect\<close> opens the connection or fails.\<close>

definition get_conn :: "env \<Rightarrow> store \<Rightarrow> error + unit" where
  "get_conn e db =
     (case database_url e of
        None \<Rightarrow> Inl ConfigurationMissing
      | Some url \<Rightarrow>
          if url = [] then Inl ConfigurationMissing
          else if reachable db then Inr ()
          else Inl (StoreError ''connection failed''))"

text \<open>
  \<^verbatim>\<open>cur.execute(q, params)\<close> followed by the fetch. The driver first adapts the
  parameters and refuses a string that holds a NUL byte (\<^verbatim>\<open>DataError\<close>: PostgreSQL
  text fields cannot contain NUL bytes); nothing is sent then. Otherwise the store
  records the statement and answers by the meaning of the statement, a function of
  the bound parameters and of the store's state. The meaning of each statement is
  written next to its text.
\<close>

definition has_nul :: "val \<Rightarrow> bool" where
  "has_nul v = (case v of T s \<Rightarrow> CHR 0x00 \<in> set s | _ \<Rightarrow> False)"

type_synonym meaning = "val list \<Rightarrow> store \<Rightarrow> (error + row list) \<times> store"

definition execute :: "string \<Rightarrow> val list \<Rightarrow> meaning \<Rightarrow> store \<Rightarrow> (error + row list) \<times> store" where
  "execute q params sem db =
     (if list_ex has_nul params
      then (Inl (StoreError ''PostgreSQL text fields cannot contain NUL (0x00) bytes''), db)
      else sem params (db\<lparr>received := received db @ [(q, params)]\<rparr>))"

definition opaque :: "string \<Rightarrow> meaning" where
  "opaque q params db = (Inr (answers db q params), db)"

text \<open>The body of \<^verbatim>\<open>with get_conn() as conn, conn.cursor(...) as cur\<close> for one
  statement.\<close>

definition run_statement :: "env \<Rightarrow> string \<Rightarrow> val list \<Rightarrow> meaning \<Rightarrow> store \<Rightarrow> (error + row list) \<times> store" where
  "run_statement e q params sem db =
     (case get_conn e db of
        Inl err \<Rightarrow> (Inl err, db)
      | Inr _ \<Rightarrow> execute q params sem db)"

definition fetchone :: "row list \<Rightarrow> row option" where
  "fetchone rows = (case rows of [] \<Rightarrow> None | r # _ \<Rightarrow> Some r)"

definition wrong_parameters :: error where
  "wrong_parameters = StoreError ''the statement and its parameters do not agree''"

subsection \<open>Relational operations\<close>

text \<open>A comparison \<^verbatim>\<open>a = b\<close> is true: neither side is \<^verbatim>\<open>NULL\<close> and the values are
  equal. A \<^verbatim>\<open>WHERE\<close> clause keeps the rows for which its condition is true.\<close>

definition sql_eq :: "val \<Rightarrow> val \<Rightarrow> bool" where
  "sql_eq a b \<longleftrightarrow> a \<noteq> Null \<and> b \<noteq> Null \<and> a = b"

definition num :: "val \<Rightarrow> rat option" where
  "num v = (case v of I n \<Rightarrow> Some (of_int n) | R x \<Rightarrow> Some x | _ \<Rightarrow> None)"

definition sql_minus :: "val \<Rightarrow> val \<Rightarrow> val" where
  "sql_minus a b = (case (num a, num b) of (Some x, Some y) \<Rightarrow> R (x - y) | _ \<Rightarrow> Null)"

definition coalesce :: "val \<Rightarrow> val \<Rightarrow> val" where
  "coalesce a b = (if a = Null then b else a)"

definition sql_gt0 :: "val \<Rightarrow> bool" where
  "sql_gt0 v = (case num v of Some x \<Rightarrow> 0 < x | None \<Rightarrow> False)"

text \<open>\<^verbatim>\<open>sum(...)\<close> over a group: the sum of the values that are not \<^verbatim>\<open>NULL\<close>, and
  \<^verbatim>\<open>NULL\<close> when there is none.\<close>

definition sql_sum :: "val list \<Rightarrow> val" where
  "sql_sum vs =
     (let xs = List.map_filter num vs in if xs = [] then Null else R (sum_list xs))"

text \<open>The select list: the named columns, in order.\<close>

definition project :: "string list \<Rightarrow> row \<Rightarrow> row" where
  "project cols r = map (\<lambda>c. (c, col r c)) cols"

definition sql_limit :: "val \<Rightarrow> row list \<Rightarrow> error + row list" where
  "sql_limit n rows =
     (case n of
        I k \<Rightarrow> if k < 0 then Inl (StoreError ''LIMIT must not be negative'')
               else Inr (take (nat k) rows)
      | Null \<Rightarrow> Inr rows
      | _ \<Rightarrow> Inl (StoreError ''argument of LIMIT must be an integer''))"

text \<open>
  \<^verbatim>\<open>ORDER BY\<close>: a list of keys, each a column, a direction and where \<^verbatim>\<open>NULL\<close>
  goes (ascending keys put it last and descending keys first unless the statement
  says otherwise). Text is compared by the order of the store's collation, given as
  the first argument; \<open>str_less\<close> is the order byte by byte. Rows the keys do not
  tell apart keep the order they have in the relation (the store promises no order
  among them; nothing proved below depends on it).
\<close>

datatype direction = Asc | Desc

type_synonym sort_key = "string \<times> direction \<times> bool"

fun str_less :: "string \<Rightarrow> string \<Rightarrow> bool" where
  "str_less [] [] = False"
| "str_less [] (y # ys) = True"
| "str_less (x # xs) [] = False"
| "str_less (x # xs) (y # ys) =
     ((of_char x :: nat) < of_char y \<or> (x = y \<and> str_less xs ys))"

fun val_less :: "(string \<Rightarrow> string \<Rightarrow> bool) \<Rightarrow> val \<Rightarrow> val \<Rightarrow> bool" where
  "val_less lt (I a) (I b) = (a < b)"
| "val_less lt (I a) (R b) = (of_int a < b)"
| "val_less lt (R a) (I b) = (a < of_int b)"
| "val_less lt (R a) (R b) = (a < b)"
| "val_less lt (T a) (T b) = lt a b"
| "val_less lt (B a) (B b) = (\<not> a \<and> b)"
| "val_less lt (D a) (D b) =
     (year a < year b \<or> (year a = year b \<and>
        (month a < month b \<or> (month a = month b \<and> day a < day b))))"
| "val_less lt (TS a) (TS b) = (a < b)"
| "val_less lt _ _ = False"

definition key_before ::
  "(string \<Rightarrow> string \<Rightarrow> bool) \<Rightarrow> sort_key \<Rightarrow> row \<Rightarrow> row \<Rightarrow> bool" where
  "key_before lt k r1 r2 =
     (case k of (c, d, nulls_last) \<Rightarrow>
        (let a = col r1 c; b = col r2 c
         in if a = Null then b \<noteq> Null \<and> \<not> nulls_last
            else if b = Null then nulls_last
            else if d = Asc then val_less lt a b
            else val_less lt b a))"

fun rows_before ::
  "(string \<Rightarrow> string \<Rightarrow> bool) \<Rightarrow> sort_key list \<Rightarrow> row \<Rightarrow> row \<Rightarrow> bool" where
  "rows_before lt [] r1 r2 = False"
| "rows_before lt (k # ks) r1 r2 =
     (key_before lt k r1 r2 \<or> (\<not> key_before lt k r2 r1 \<and> rows_before lt ks r1 r2))"

text \<open>A row is put in front of the rows that come later in the relation, behind those
  of them that sort strictly before it.\<close>

fun insert_row ::
  "(string \<Rightarrow> string \<Rightarrow> bool) \<Rightarrow> sort_key list \<Rightarrow> row \<Rightarrow> row list \<Rightarrow> row list" where
  "insert_row lt ks r [] = [r]"
| "insert_row lt ks r (x # xs) =
     (if rows_before lt ks x r then x # insert_row lt ks r xs else r # x # xs)"

definition order_by ::
  "(string \<Rightarrow> string \<Rightarrow> bool) \<Rightarrow> sort_key list \<Rightarrow> row list \<Rightarrow> row list" where
  "order_by lt ks rows = foldr (insert_row lt ks) rows []"

subsection \<open>\<^verbatim>\<open>ILIKE\<close>\<close>

text \<open>
  A \<^verbatim>\<open>LIKE\<close> pattern against a text: \<^verbatim>\<open>%\<close> stands for any run of characters,
  \<^verbatim>\<open>_\<close> for one character (a lead byte with its continuation bytes), a backslash
  makes the next pattern byte stand for itself, and any other byte stands for itself.
  A pattern that ends in a lone backslash matches nothing here (the store reports an
  error for it); the patterns the gateway builds end in \<^verbatim>\<open>%\<close>. \<^verbatim>\<open>ILIKE\<close> lowers
  the pattern and the text by the case folding of the store's collation, given as the
  first argument, and matches the results. \<open>lower\<close> is the folding of the letters A to
  Z alone, which the usual collations share on ASCII text.
\<close>

definition is_continuation :: "char \<Rightarrow> bool" where
  "is_continuation c \<longleftrightarrow> 128 \<le> (of_char c :: nat) \<and> (of_char c :: nat) < 192"

fun like_match :: "string \<Rightarrow> string \<Rightarrow> bool" where
  "like_match [] t = (t = [])"
| "like_match (p # ps) t =
     (if p = CHR ''%'' then
        (like_match ps t \<or> (case t of [] \<Rightarrow> False | c # cs \<Rightarrow> like_match (p # ps) cs))
      else if p = CHR 0x5C then
        (case ps of
           [] \<Rightarrow> False
         | q # qs \<Rightarrow> (case t of [] \<Rightarrow> False | c # cs \<Rightarrow> c = q \<and> like_match qs cs))
      else if p = CHR ''_'' then
        (case t of [] \<Rightarrow> False | c # cs \<Rightarrow> like_match ps (dropWhile is_continuation cs))
      else
        (case t of [] \<Rightarrow> False | c # cs \<Rightarrow> c = p \<and> like_match ps cs))"

declare like_match.simps [simp del]

definition lower_char :: "char \<Rightarrow> char" where
  "lower_char c =
     (if 65 \<le> (of_char c :: nat) \<and> (of_char c :: nat) \<le> 90
      then char_of ((of_char c :: nat) + 32) else c)"

definition lower :: "string \<Rightarrow> string" where
  "lower s = map lower_char s"

definition ilike :: "(string \<Rightarrow> string) \<Rightarrow> val \<Rightarrow> val \<Rightarrow> bool" where
  "ilike fold_case v pat =
     (case (v, pat) of
        (T s, T p) \<Rightarrow> like_match (fold_case p) (fold_case s)
      | _ \<Rightarrow> False)"



section \<open>The operations\<close>

text \<open>An optional string argument as Python's \<^verbatim>\<open>if arg:\<close> sees it: \<^verbatim>\<open>None\<close> and the
  empty string are both false.\<close>

definition given :: "string option \<Rightarrow> string option" where
  "given v = (case v of None \<Rightarrow> None | Some s \<Rightarrow> if s = [] then None else Some s)"

fun join :: "string \<Rightarrow> string list \<Rightarrow> string" where
  "join sep [] = []"
| "join sep [x] = x"
| "join sep (x # y # ys) = x @ sep @ join sep (y # ys)"

definition opt_text :: "string option \<Rightarrow> val" where
  "opt_text v = (case v of None \<Rightarrow> Null | Some s \<Rightarrow> T s)"

definition opt_int :: "int option \<Rightarrow> val" where
  "opt_int v = (case v of None \<Rightarrow> Null | Some n \<Rightarrow> I n)"

definition opt_date :: "date option \<Rightarrow> val" where
  "opt_date v = (case v of None \<Rightarrow> Null | Some d \<Rightarrow> D d)"

subsection \<open>\<^verbatim>\<open>list_tables\<close>\<close>

definition list_tables_q :: string where
  "list_tables_q =
     nl @
     ''    select table_name'' @ nl @
     ''    from information_schema.tables'' @ nl @
     ''    where table_schema=%s and table_type='' @ sq @ ''BASE TABLE'' @ sq @ nl @
     ''    order by table_name;'' @ nl @
     ''    ''"

fun first_columns :: "row list \<Rightarrow> error + val list" where
  "first_columns [] = Inr []"
| "first_columns (r # rs) =
     (case r of
        [] \<Rightarrow> Inl IndexError
      | (c, v) # _ \<Rightarrow>
          (case first_columns rs of Inl err \<Rightarrow> Inl err | Inr vs \<Rightarrow> Inr (v # vs)))"

definition list_tables :: "env \<Rightarrow> store \<Rightarrow> (error + val list) \<times> store" where
  "list_tables e db =
     (case schema e of
        Inl err \<Rightarrow> (Inl err, db)
      | Inr s \<Rightarrow>
          (case run_statement e list_tables_q [T s] (opaque list_tables_q) db of
             (Inl err, db') \<Rightarrow> (Inl err, db')
           | (Inr rows, db') \<Rightarrow> (first_columns rows, db')))"

subsection \<open>\<^verbatim>\<open>search_patients\<close>\<close>

definition search_patients_q :: "string \<Rightarrow> string \<Rightarrow> string" where
  "search_patients_q patients where_clause =
     nl @
     ''    select patient_id, mrn, first_name, last_name, dob, sex, phone, email, status, created_at'' @ nl @
     ''    from '' @ patients @ nl @
     ''    '' @ where_clause @ nl @
     ''    order by last_name, first_name'' @ nl @
     ''    limit %s'' @ nl @
     ''    ''"

definition search_patients_columns :: "string list" where
  "search_patients_columns =
     [''patient_id'', ''mrn'', ''first_name'', ''last_name'', ''dob'', ''sex'', ''phone'',
      ''email'', ''status'', ''created_at'']"

text \<open>The rows the statement selects for a condition on the patients and a bound
  limit.\<close>

definition select_patients :: "string \<Rightarrow> (row \<Rightarrow> bool) \<Rightarrow> val \<Rightarrow> store \<Rightarrow> (error + row list) \<times> store" where
  "select_patients s cond bound db =
     (sql_limit bound
        (map (project search_patients_columns)
           (order_by (text_less db) [(''last_name'', Asc, True), (''first_name'', Asc, True)]
              (filter cond (tables db (s, ''patients''))))),
      db)"

text \<open>The statement has one of four texts, by the clauses that were appended; each
  binds its parameters in the order of its placeholders.\<close>

definition search_patients_sem :: "string \<Rightarrow> bool \<Rightarrow> bool \<Rightarrow> meaning" where
  "search_patients_sem s has_mrn has_name params db =
     (if has_mrn \<and> has_name then
        (case params of
           [m, l1, l2, bound] \<Rightarrow>
             select_patients s
               (\<lambda>r. sql_eq (col r ''mrn'') m \<and>
                    (ilike (casefold db) (col r ''first_name'') l1 \<or> ilike (casefold db) (col r ''last_name'') l2)) bound db
         | _ \<Rightarrow> (Inl wrong_parameters, db))
      else if has_mrn then
        (case params of
           [m, bound] \<Rightarrow> select_patients s (\<lambda>r. sql_eq (col r ''mrn'') m) bound db
         | _ \<Rightarrow> (Inl wrong_parameters, db))
      else if has_name then
        (case params of
           [l1, l2, bound] \<Rightarrow>
             select_patients s
               (\<lambda>r. ilike (casefold db) (col r ''first_name'') l1 \<or> ilike (casefold db) (col r ''last_name'') l2) bound db
         | _ \<Rightarrow> (Inl wrong_parameters, db))
      else
        (case params of
           [bound] \<Rightarrow> select_patients s (\<lambda>r. True) bound db
         | _ \<Rightarrow> (Inl wrong_parameters, db)))"

definition search_patients ::
  "env \<Rightarrow> string option \<Rightarrow> string option \<Rightarrow> int \<Rightarrow> store \<Rightarrow> (error + row list) \<times> store" where
  "search_patients e name mrn limit db =
     (if limit < 1 \<or> limit > 200 then
        (Inl (OutOfRange ''limit must be between 1 and 200''), db)
      else
        (let (clauses, params) =
               (case given mrn of
                  None \<Rightarrow> ([], [])
                | Some m \<Rightarrow> ([''mrn = %s''], [T m]));
             (clauses, params) =
               (case given name of
                  None \<Rightarrow> (clauses, params)
                | Some n \<Rightarrow>
                    (clauses @ [''(first_name ILIKE %s OR last_name ILIKE %s)''],
                     params @ [T (''%'' @ n @ ''%''), T (''%'' @ n @ ''%'')]));
             where_clause =
               (if clauses \<noteq> [] then '' where '' @ join '' and '' clauses else [])
         in case q_table e ''patients'' of
              Inl err \<Rightarrow> (Inl err, db)
            | Inr patients \<Rightarrow>
                run_statement e (search_patients_q patients where_clause)
                  (params @ [I limit])
                  (search_patients_sem (db_schema e) (given mrn \<noteq> None) (given name \<noteq> None))
                  db))"

subsection \<open>\<^verbatim>\<open>get_patient\<close>\<close>

definition get_patient_q :: "string \<Rightarrow> string" where
  "get_patient_q patients =
     nl @
     ''    select *'' @ nl @
     ''    from '' @ patients @ nl @
     ''    where patient_id = %s'' @ nl @
     ''    ''"

definition get_patient_sem :: "string \<Rightarrow> meaning" where
  "get_patient_sem s params db =
     (case params of
        [pid] \<Rightarrow>
          (Inr (filter (\<lambda>r. sql_eq (col r ''patient_id'') pid) (tables db (s, ''patients''))), db)
      | _ \<Rightarrow> (Inl wrong_parameters, db))"

text \<open>The record returned in place of a patient:
  \<^verbatim>\<open>{"error": "patient not found"}\<close>.\<close>

definition not_found :: row where
  "not_found = [(''error'', T ''patient not found'')]"

definition get_patient :: "env \<Rightarrow> int \<Rightarrow> store \<Rightarrow> (error + row) \<times> store" where
  "get_patient e patient_id db =
     (case q_table e ''patients'' of
        Inl err \<Rightarrow> (Inl err, db)
      | Inr patients \<Rightarrow>
          (case run_statement e (get_patient_q patients) [I patient_id]
                  (get_patient_sem (db_schema e)) db of
             (Inl err, db') \<Rightarrow> (Inl err, db')
           | (Inr rows, db') \<Rightarrow>
               (Inr (case fetchone rows of
                       None \<Rightarrow> not_found
                     | Some r \<Rightarrow> if r = [] then not_found else r), db')))"

subsection \<open>\<^verbatim>\<open>get_patient_contacts\<close>\<close>

definition get_patient_contacts_q :: "string \<Rightarrow> string" where
  "get_patient_contacts_q patient_contacts =
     nl @
     ''    select contact_id, relationship, full_name, phone, email, is_primary, created_at'' @ nl @
     ''    from '' @ patient_contacts @ nl @
     ''    where patient_id = %s'' @ nl @
     ''    order by is_primary desc, created_at desc'' @ nl @
     ''    ''"

definition get_patient_contacts :: "env \<Rightarrow> int \<Rightarrow> store \<Rightarrow> (error + row list) \<times> store" where
  "get_patient_contacts e patient_id db =
     (case q_table e ''patient_contacts'' of
        Inl err \<Rightarrow> (Inl err, db)
      | Inr patient_contacts \<Rightarrow>
          run_statement e (get_patient_contacts_q patient_contacts) [I patient_id]
            (opaque (get_patient_contacts_q patient_contacts)) db)"

subsection \<open>Upcoming appointments\<close>

definition upcoming_appointments_for_patient_q :: "string \<Rightarrow> string \<Rightarrow> string \<Rightarrow> string" where
  "upcoming_appointments_for_patient_q appointments providers departments =
     nl @
     ''    select'' @ nl @
     ''      a.appointment_id,'' @ nl @
     ''      a.starts_at,'' @ nl @
     ''      a.ends_at,'' @ nl @
     ''      a.status,'' @ nl @
     ''      a.reason,'' @ nl @
     ''      a.location,'' @ nl @
     ''      a.case_id,'' @ nl @
     ''      p.provider_id,'' @ nl @
     ''      p.first_name as provider_first_name,'' @ nl @
     ''      p.last_name as provider_last_name,'' @ nl @
     ''      d.name as department_name'' @ nl @
     ''    from '' @ appointments @ '' a'' @ nl @
     ''    left join '' @ providers @ '' p on p.provider_id = a.provider_id'' @ nl @
     ''    left join '' @ departments @ '' d on d.department_id = a.department_id'' @ nl @
     ''    where a.patient_id = %s'' @ nl @
     ''      and a.starts_at >= now()'' @ nl @
     ''      and a.starts_at < (now() + (%s || '' @ sq @ '' days'' @ sq @ '')::interval)'' @ nl @
     ''    order by a.starts_at asc'' @ nl @
     ''    limit %s'' @ nl @
     ''    ''"

definition upcoming_appointments_for_patient ::
  "env \<Rightarrow> int \<Rightarrow> int \<Rightarrow> int \<Rightarrow> store \<Rightarrow> (error + row list) \<times> store" where
  "upcoming_appointments_for_patient e patient_id days limit db =
     (if days < 1 \<or> days > 365 then
        (Inl (OutOfRange ''days must be between 1 and 365''), db)
      else if limit < 1 \<or> limit > 200 then
        (Inl (OutOfRange ''limit must be between 1 and 200''), db)
      else
        (case q_table e ''appointments'' of
           Inl err \<Rightarrow> (Inl err, db)
         | Inr appointments \<Rightarrow>
             (case q_table e ''providers'' of
                Inl err \<Rightarrow> (Inl err, db)
              | Inr providers \<Rightarrow>
                  (case q_table e ''departments'' of
                     Inl err \<Rightarrow> (Inl err, db)
                   | Inr departments \<Rightarrow>
                       (let q = upcoming_appointments_for_patient_q appointments providers departments
                        in run_statement e q [I patient_id, I days, I limit] (opaque q) db)))))"

definition upcoming_appointments_for_provider_q :: "string \<Rightarrow> string \<Rightarrow> string \<Rightarrow> string" where
  "upcoming_appointments_for_provider_q appointments patients departments =
     nl @
     ''    select'' @ nl @
     ''      a.appointment_id,'' @ nl @
     ''      a.starts_at,'' @ nl @
     ''      a.ends_at,'' @ nl @
     ''      a.status,'' @ nl @
     ''      a.reason,'' @ nl @
     ''      a.location,'' @ nl @
     ''      a.patient_id,'' @ nl @
     ''      pt.first_name as patient_first_name,'' @ nl @
     ''      pt.last_name as patient_last_name,'' @ nl @
     ''      d.name as department_name'' @ nl @
     ''    from '' @ appointments @ '' a'' @ nl @
     ''    left join '' @ patients @ '' pt on pt.patient_id = a.patient_id'' @ nl @
     ''    left join '' @ departments @ '' d on d.department_id = a.department_id'' @ nl @
     ''    where a.provider_id = %s'' @ nl @
     ''      and a.starts_at >= now()'' @ nl @
     ''      and a.starts_at < (now() + (%s || '' @ sq @ '' days'' @ sq @ '')::interval)'' @ nl @
     ''    order by a.starts_at asc'' @ nl @
     ''    limit %s'' @ nl @
     ''    ''"

definition upcoming_appointments_for_provider ::
  "env \<Rightarrow> int \<Rightarrow> int \<Rightarrow> int \<Rightarrow> store \<Rightarrow> (error + row list) \<times> store" where
  "upcoming_appointments_for_provider e provider_id days limit db =
     (if days < 1 \<or> days > 365 then
        (Inl (OutOfRange ''days must be between 1 and 365''), db)
      else if limit < 1 \<or> limit > 200 then
        (Inl (OutOfRange ''limit must be between 1 and 200''), db)
      else
        (case q_table e ''appointments'' of
           Inl err \<Rightarrow> (Inl err, db)
         | Inr appointments \<Rightarrow>
             (case q_table e ''patients'' of
                Inl err \<Rightarrow> (Inl err, db)
              | Inr patients \<Rightarrow>
                  (case q_table e ''departments'' of
                     Inl err \<Rightarrow> (Inl err, db)
                   | Inr departments \<Rightarrow>
                       (let q = upcoming_appointments_for_provider_q appointments patients departments
                        in run_statement e q [I provider_id, I days, I limit] (opaque q) db)))))"

subsection \<open>\<^verbatim>\<open>patient_case_timeline\<close>\<close>

definition timeline_cases_q :: "string \<Rightarrow> string" where
  "timeline_cases_q cases =
     nl @
     ''            select case_id, status, priority, chief_complaint, diagnosis, opened_at, closed_at, provider_id, department_id'' @ nl @
     ''            from '' @ cases @ nl @
     ''            where patient_id = %s'' @ nl @
     ''            order by opened_at desc nulls last'' @ nl @
     ''            limit %s'' @ nl @
     ''            ''"

definition timeline_encounters_q :: "string \<Rightarrow> string" where
  "timeline_encounters_q encounters =
     nl @
     ''            select encounter_id, case_id, started_at, ended_at, encounter_type, location, status'' @ nl @
     ''            from '' @ encounters @ nl @
     ''            where patient_id = %s'' @ nl @
     ''            order by started_at desc nulls last'' @ nl @
     ''            limit %s'' @ nl @
     ''            ''"

definition timeline_notes_q :: "string \<Rightarrow> string" where
  "timeline_notes_q notes =
     nl @
     ''            select note_id, case_id, appointment_id, created_at, note_type, title'' @ nl @
     ''            from '' @ notes @ nl @
     ''            where patient_id = %s'' @ nl @
     ''            order by created_at desc'' @ nl @
     ''            limit %s'' @ nl @
     ''            ''"

definition timeline_tasks_q :: "string \<Rightarrow> string" where
  "timeline_tasks_q tasks =
     nl @
     ''            select task_id, case_id, due_at, status, priority, title, assigned_provider_id, created_at'' @ nl @
     ''            from '' @ tasks @ nl @
     ''            where patient_id = %s'' @ nl @
     ''            order by created_at desc'' @ nl @
     ''            limit %s'' @ nl @
     ''            ''"

definition timeline_communications_q :: "string \<Rightarrow> string" where
  "timeline_communications_q communications =
     nl @
     ''            select communication_id, case_id, appointment_id, created_at, channel, direction, subject, status'' @ nl @
     ''            from '' @ communications @ nl @
     ''            where patient_id = %s'' @ nl @
     ''            order by created_at desc'' @ nl @
     ''            limit %s'' @ nl @
     ''            ''"

text \<open>One of the five statements, on the connection already open: the table name is
  quoted when the statement text is built, just before it is executed.\<close>

definition timeline_query ::
  "env \<Rightarrow> string \<Rightarrow> (string \<Rightarrow> string) \<Rightarrow> val list \<Rightarrow> store \<Rightarrow> (error + row list) \<times> store" where
  "timeline_query e table mk_q params db =
     (case q_table e table of
        Inl err \<Rightarrow> (Inl err, db)
      | Inr qt \<Rightarrow> execute (mk_q qt) params (opaque (mk_q qt)) db)"

record timeline =
  tl_patient_id :: int
  tl_cases :: "row list"
  tl_encounters :: "row list"
  tl_notes :: "row list"
  tl_tasks :: "row list"
  tl_communications :: "row list"

definition patient_case_timeline ::
  "env \<Rightarrow> int \<Rightarrow> int \<Rightarrow> store \<Rightarrow> (error + timeline) \<times> store" where
  "patient_case_timeline e patient_id limit_per_type db =
     (if limit_per_type < 1 \<or> limit_per_type > 200 then
        (Inl (OutOfRange ''limit_per_type must be between 1 and 200''), db)
      else
        (case get_conn e db of
           Inl err \<Rightarrow> (Inl err, db)
         | Inr _ \<Rightarrow>
        (case timeline_query e ''cases'' timeline_cases_q
                [I patient_id, I limit_per_type] db of
           (Inl err, db1) \<Rightarrow> (Inl err, db1)
         | (Inr cases, db1) \<Rightarrow>
        (case timeline_query e ''encounters'' timeline_encounters_q
                [I patient_id, I limit_per_type] db1 of
           (Inl err, db2) \<Rightarrow> (Inl err, db2)
         | (Inr encounters, db2) \<Rightarrow>
        (case timeline_query e ''notes'' timeline_notes_q
                [I patient_id, I limit_per_type] db2 of
           (Inl err, db3) \<Rightarrow> (Inl err, db3)
         | (Inr notes, db3) \<Rightarrow>
        (case timeline_query e ''tasks'' timeline_tasks_q
                [I patient_id, I limit_per_type] db3 of
           (Inl err, db4) \<Rightarrow> (Inl err, db4)
         | (Inr tasks, db4) \<Rightarrow>
        (case timeline_query e ''communications'' timeline_communications_q
                [I patient_id, I limit_per_type] db4 of
           (Inl err, db5) \<Rightarrow> (Inl err, db5)
         | (Inr communications, db5) \<Rightarrow>
             (Inr \<lparr>tl_patient_id = patient_id, tl_cases = cases,
                   tl_encounters = encounters, tl_notes = notes, tl_tasks = tasks,
                   tl_communications = communications\<rparr>, db5))))))))"

subsection \<open>\<^verbatim>\<open>outstanding_invoices\<close>\<close>

definition outstanding_invoices_q :: "string \<Rightarrow> string \<Rightarrow> string" where
  "outstanding_invoices_q invoices payments =
     nl @
     ''    select'' @ nl @
     ''      i.invoice_id,'' @ nl @
     ''      i.status,'' @ nl @
     ''      i.issued_at,'' @ nl @
     ''      i.due_at,'' @ nl @
     ''      i.total_amount,'' @ nl @
     ''      coalesce(paid.paid_amount, 0) as paid_amount,'' @ nl @
     ''      (i.total_amount - coalesce(paid.paid_amount, 0)) as balance'' @ nl @
     ''    from '' @ invoices @ '' i'' @ nl @
     ''    left join ('' @ nl @
     ''      select invoice_id, sum(amount) as paid_amount'' @ nl @
     ''      from '' @ payments @ nl @
     ''      group by invoice_id'' @ nl @
     ''    ) paid on paid.invoice_id = i.invoice_id'' @ nl @
     ''    where i.patient_id = %s'' @ nl @
     ''      and (i.total_amount - coalesce(paid.paid_amount, 0)) > 0'' @ nl @
     ''    order by i.due_at asc nulls last, i.issued_at desc'' @ nl @
     ''    limit %s'' @ nl @
     ''    ''"

text \<open>The derived table \<^verbatim>\<open>paid\<close>: one row for each distinct \<^verbatim>\<open>invoice_id\<close> of the
  payments (\<^verbatim>\<open>NULL\<close> being one group), with the sum of the amounts of the group.\<close>

definition paid_totals :: "row list \<Rightarrow> row list" where
  "paid_totals payments =
     map (\<lambda>k. [(''invoice_id'', k),
               (''paid_amount'',
                  sql_sum (map (\<lambda>p. col p ''amount'')
                             (filter (\<lambda>p. col p ''invoice_id'' = k) payments)))])
       (remdups (map (\<lambda>p. col p ''invoice_id'') payments))"

text \<open>The left join: each invoice with the \<^verbatim>\<open>paid_amount\<close> of every row of \<^verbatim>\<open>paid\<close>
  for its \<^verbatim>\<open>invoice_id\<close>, and with \<^verbatim>\<open>NULL\<close> when there is no such row.\<close>

definition invoices_with_paid :: "row list \<Rightarrow> row list \<Rightarrow> (row \<times> val) list" where
  "invoices_with_paid invoices paid =
     concat (map (\<lambda>i.
       (case filter (\<lambda>g. sql_eq (col g ''invoice_id'') (col i ''invoice_id'')) paid of
          [] \<Rightarrow> [(i, Null)]
        | g # gs \<Rightarrow> map (\<lambda>g. (i, col g ''paid_amount'')) (g # gs))) invoices)"

definition invoice_balance :: "row \<times> val \<Rightarrow> val" where
  "invoice_balance l = sql_minus (col (fst l) ''total_amount'') (coalesce (snd l) (I 0))"

definition invoice_record :: "row \<times> val \<Rightarrow> row" where
  "invoice_record l =
     [(''invoice_id'', col (fst l) ''invoice_id''),
      (''status'', col (fst l) ''status''),
      (''issued_at'', col (fst l) ''issued_at''),
      (''due_at'', col (fst l) ''due_at''),
      (''total_amount'', col (fst l) ''total_amount''),
      (''paid_amount'', coalesce (snd l) (I 0)),
      (''balance'', invoice_balance l)]"

definition outstanding_invoices_sem :: "string \<Rightarrow> meaning" where
  "outstanding_invoices_sem s params db =
     (case params of
        [pid, bound] \<Rightarrow>
          (sql_limit bound
             (order_by (text_less db) [(''due_at'', Asc, True), (''issued_at'', Desc, False)]
                (map invoice_record
                   (filter (\<lambda>l. sql_eq (col (fst l) ''patient_id'') pid \<and>
                                sql_gt0 (invoice_balance l))
                      (invoices_with_paid (tables db (s, ''invoices''))
                         (paid_totals (tables db (s, ''payments''))))))),
           db)
      | _ \<Rightarrow> (Inl wrong_parameters, db))"

definition outstanding_invoices ::
  "env \<Rightarrow> int \<Rightarrow> int \<Rightarrow> store \<Rightarrow> (error + row list) \<times> store" where
  "outstanding_invoices e patient_id limit db =
     (if limit < 1 \<or> limit > 200 then
        (Inl (OutOfRange ''limit must be between 1 and 200''), db)
      else
        (case q_table e ''invoices'' of
           Inl err \<Rightarrow> (Inl err, db)
         | Inr invoices \<Rightarrow>
             (case q_table e ''payments'' of
                Inl err \<Rightarrow> (Inl err, db)
              | Inr payments \<Rightarrow>
                  run_statement e (outstanding_invoices_q invoices payments)
                    [I patient_id, I limit] (outstanding_invoices_sem (db_schema e)) db)))"

text \<open>The sum of the payments of an invoice, zero when it has none: the words of the
  specification.\<close>

definition payments_total :: "store \<Rightarrow> string \<Rightarrow> val \<Rightarrow> rat" where
  "payments_total db s invoice_id =
     sum_list (List.map_filter (\<lambda>p. num (col p ''amount''))
                 (filter (\<lambda>p. sql_eq (col p ''invoice_id'') invoice_id)
                    (tables db (s, ''payments''))))"

subsection \<open>\<^verbatim>\<open>claim_status_for_patient\<close>\<close>

definition claim_status_for_patient_q :: "string \<Rightarrow> string \<Rightarrow> string" where
  "claim_status_for_patient_q claims payers =
     nl @
     ''    select'' @ nl @
     ''      c.claim_id,'' @ nl @
     ''      c.status,'' @ nl @
     ''      c.submitted_at,'' @ nl @
     ''      c.updated_at,'' @ nl @
     ''      c.payer_id,'' @ nl @
     ''      py.name as payer_name,'' @ nl @
     ''      c.total_claim_amount'' @ nl @
     ''    from '' @ claims @ '' c'' @ nl @
     ''    left join '' @ payers @ '' py on py.payer_id = c.payer_id'' @ nl @
     ''    where c.patient_id = %s'' @ nl @
     ''    order by c.updated_at desc nulls last, c.submitted_at desc nulls last'' @ nl @
     ''    limit %s'' @ nl @
     ''    ''"

definition claim_status_for_patient ::
  "env \<Rightarrow> int \<Rightarrow> int \<Rightarrow> store \<Rightarrow> (error + row list) \<times> store" where
  "claim_status_for_patient e patient_id limit db =
     (if limit < 1 \<or> limit > 200 then
        (Inl (OutOfRange ''limit must be between 1 and 200''), db)
      else
        (case q_table e ''claims'' of
           Inl err \<Rightarrow> (Inl err, db)
         | Inr claims \<Rightarrow>
             (case q_table e ''payers'' of
                Inl err \<Rightarrow> (Inl err, db)
              | Inr payers \<Rightarrow>
                  (let q = claim_status_for_patient_q claims payers
                   in run_statement e q [I patient_id, I limit] (opaque q) db))))"

subsection \<open>\<^verbatim>\<open>allergies_for_patient\<close>\<close>

definition allergies_for_patient_q :: "string \<Rightarrow> string" where
  "allergies_for_patient_q allergies =
     nl @
     ''    select allergy_id, allergen, reaction, severity, noted_at, status'' @ nl @
     ''    from '' @ allergies @ nl @
     ''    where patient_id = %s'' @ nl @
     ''    order by noted_at desc nulls last'' @ nl @
     ''    ''"

definition allergies_for_patient :: "env \<Rightarrow> int \<Rightarrow> store \<Rightarrow> (error + row list) \<times> store" where
  "allergies_for_patient e patient_id db =
     (case q_table e ''allergies'' of
        Inl err \<Rightarrow> (Inl err, db)
      | Inr allergies \<Rightarrow>
          run_statement e (allergies_for_patient_q allergies) [I patient_id]
            (opaque (allergies_for_patient_q allergies)) db)"

subsection \<open>\<^verbatim>\<open>active_prescriptions\<close>\<close>

definition active_prescriptions_q :: "string \<Rightarrow> string \<Rightarrow> string" where
  "active_prescriptions_q prescriptions medications =
     nl @
     ''    select'' @ nl @
     ''      pr.prescription_id,'' @ nl @
     ''      pr.status,'' @ nl @
     ''      pr.start_date,'' @ nl @
     ''      pr.end_date,'' @ nl @
     ''      pr.dosage_instructions,'' @ nl @
     ''      m.medication_id,'' @ nl @
     ''      m.name as medication_name'' @ nl @
     ''    from '' @ prescriptions @ '' pr'' @ nl @
     ''    left join '' @ medications @ '' m on m.medication_id = pr.medication_id'' @ nl @
     ''    where pr.patient_id = %s'' @ nl @
     ''      and pr.status = '' @ sq @ ''active'' @ sq @ nl @
     ''    order by pr.start_date desc nulls last'' @ nl @
     ''    limit %s'' @ nl @
     ''    ''"

definition active_prescriptions ::
  "env \<Rightarrow> int \<Rightarrow> int \<Rightarrow> store \<Rightarrow> (error + row list) \<times> store" where
  "active_prescriptions e patient_id limit db =
     (if limit < 1 \<or> limit > 200 then
        (Inl (OutOfRange ''limit must be between 1 and 200''), db)
      else
        (case q_table e ''prescriptions'' of
           Inl err \<Rightarrow> (Inl err, db)
         | Inr prescriptions \<Rightarrow>
             (case q_table e ''medications'' of
                Inl err \<Rightarrow> (Inl err, db)
              | Inr medications \<Rightarrow>
                  (let q = active_prescriptions_q prescriptions medications
                   in run_statement e q [I patient_id, I limit] (opaque q) db))))"

subsection \<open>\<^verbatim>\<open>create_patient\<close>\<close>

definition create_patient_q :: "string \<Rightarrow> string" where
  "create_patient_q patients =
     nl @
     ''    INSERT INTO '' @ patients @ nl @
     ''      (mrn, first_name, last_name, dob, sex, phone, email,'' @ nl @
     ''       address_line1, address_line2, city, state, postal_code, country, status,'' @ nl @
     ''       created_at, updated_at)'' @ nl @
     ''    VALUES'' @ nl @
     ''      (%s, %s, %s, %s, %s, %s, %s,'' @ nl @
     ''       %s, %s, %s, %s, %s, %s, %s,'' @ nl @
     ''       now(), now())'' @ nl @
     ''    RETURNING'' @ nl @
     ''      patient_id, mrn, first_name, last_name, dob, sex, phone, email, status, created_at;'' @ nl @
     ''    ''"

text \<open>
  Modelled from the spec: the table definitions are not part of the source. The
  statement names no \<^verbatim>\<open>patient_id\<close> and asks for it back, so the store assigns it;
  the spec has the id returned by a creation identify the created patient in a later
  lookup. The model draws the id from the sequence of the table and refuses the row
  when a patient already has that id, as a primary key does. Other constraints a
  schema may add (required columns, unique record numbers) are not modelled.
\<close>

definition create_patient_sem :: "string \<Rightarrow> meaning" where
  "create_patient_sem s params db =
     (case params of
        [mrn, first_name, last_name, dob, sex, phone, email, address_line1,
         address_line2, city, state, postal_code, country, status] \<Rightarrow>
          (let pid = next_id db (s, ''patients'');
               db1 = db\<lparr>next_id := (next_id db)((s, ''patients'') := pid + 1)\<rparr>;
               new = [(''patient_id'', I pid), (''mrn'', mrn), (''first_name'', first_name),
                      (''last_name'', last_name), (''dob'', dob), (''sex'', sex),
                      (''phone'', phone), (''email'', email),
                      (''address_line1'', address_line1), (''address_line2'', address_line2),
                      (''city'', city), (''state'', state), (''postal_code'', postal_code),
                      (''country'', country), (''status'', status),
                      (''created_at'', TS (clock db)), (''updated_at'', TS (clock db))]
           in if list_ex (\<lambda>r. col r ''patient_id'' = I pid) (tables db (s, ''patients''))
              then (Inl (StoreError ''duplicate key value violates unique constraint''), db1)
              else
                (Inr [project [''patient_id'', ''mrn'', ''first_name'', ''last_name'', ''dob'',
                              ''sex'', ''phone'', ''email'', ''status'', ''created_at''] new],
                 db1\<lparr>tables := (tables db)((s, ''patients'') :=
                                  tables db (s, ''patients'') @ [new])\<rparr>))
      | _ \<Rightarrow> (Inl wrong_parameters, db))"

definition create_patient ::
  "env \<Rightarrow> string \<Rightarrow> string \<Rightarrow> string option \<Rightarrow> string option \<Rightarrow> string option \<Rightarrow>
   string option \<Rightarrow> string option \<Rightarrow> string option \<Rightarrow> string option \<Rightarrow> string option \<Rightarrow>
   string option \<Rightarrow> string option \<Rightarrow> string \<Rightarrow> string \<Rightarrow> store \<Rightarrow>
   (error + row option) \<times> store" where
  "create_patient e first_name last_name mrn dob sex phone email address_line1
       address_line2 city state postal_code country status db =
     (if first_name = [] \<or> strip first_name = [] then
        (Inl (MissingRequiredField ''first_name is required''), db)
      else if last_name = [] \<or> strip last_name = [] then
        (Inl (MissingRequiredField ''last_name is required''), db)
      else
        (case parse_date dob of
           Inl err \<Rightarrow> (Inl err, db)
         | Inr dob_val \<Rightarrow>
             (case q_table e ''patients'' of
                Inl err \<Rightarrow> (Inl err, db)
              | Inr patients \<Rightarrow>
                  (case run_statement e (create_patient_q patients)
                          [opt_text mrn, T (strip first_name), T (strip last_name),
                           opt_date dob_val, opt_text sex, opt_text phone, opt_text email,
                           opt_text address_line1, opt_text address_line2, opt_text city,
                           opt_text state, opt_text postal_code, T country, T status]
                          (create_patient_sem (db_schema e)) db of
                     (Inl err, db') \<Rightarrow> (Inl err, db')
                   | (Inr rows, db') \<Rightarrow> (Inr (fetchone rows), db')))))"

subsection \<open>\<^verbatim>\<open>create_appointment\<close>\<close>

definition create_appointment_q :: "string \<Rightarrow> string" where
  "create_appointment_q appointments =
     nl @
     ''    INSERT INTO '' @ appointments @ nl @
     ''      (patient_id, provider_id, department_id, case_id,'' @ nl @
     ''       starts_at, ends_at, status, reason, location, created_at)'' @ nl @
     ''    VALUES'' @ nl @
     ''      (%s, %s, %s, %s,'' @ nl @
     ''       %s, %s, %s, %s, %s, now())'' @ nl @
     ''    RETURNING'' @ nl @
     ''      appointment_id, patient_id, provider_id, department_id, case_id,'' @ nl @
     ''      starts_at, ends_at, status, reason, location, created_at;'' @ nl @
     ''    ''"

text \<open>A timestamp column takes \<^verbatim>\<open>NULL\<close> as it is and text through the store's own
  reading of timestamps.\<close>

definition store_timestamp :: "store \<Rightarrow> val \<Rightarrow> error + val" where
  "store_timestamp db v =
     (case v of
        Null \<Rightarrow> Inr Null
      | T s \<Rightarrow>
          (case ts_in db s of
             None \<Rightarrow> Inl (StoreError ''invalid input syntax for type timestamp'')
           | Some t \<Rightarrow> Inr (TS t))
      | _ \<Rightarrow> Inl (StoreError ''invalid input syntax for type timestamp''))"

text \<open>
  Modelled from the spec: the table definitions are not part of the source. As for
  patients, the store assigns \<^verbatim>\<open>appointment_id\<close> from the sequence of the table and
  refuses a row whose id is taken; other constraints are not modelled.
\<close>

definition create_appointment_sem :: "string \<Rightarrow> meaning" where
  "create_appointment_sem s params db =
     (case params of
        [patient_id, provider_id, department_id, case_id, starts_at, ends_at, status,
         reason, location] \<Rightarrow>
          (let aid = next_id db (s, ''appointments'');
               db1 = db\<lparr>next_id := (next_id db)((s, ''appointments'') := aid + 1)\<rparr>
           in case store_timestamp db starts_at of
                Inl err \<Rightarrow> (Inl err, db1)
              | Inr starts \<Rightarrow>
                  (case store_timestamp db ends_at of
                     Inl err \<Rightarrow> (Inl err, db1)
                   | Inr ends \<Rightarrow>
                       (let new = [(''appointment_id'', I aid), (''patient_id'', patient_id),
                                   (''provider_id'', provider_id),
                                   (''department_id'', department_id), (''case_id'', case_id),
                                   (''starts_at'', starts), (''ends_at'', ends),
                                   (''status'', status), (''reason'', reason),
                                   (''location'', location), (''created_at'', TS (clock db))]
                        in if list_ex (\<lambda>r. col r ''appointment_id'' = I aid)
                                (tables db (s, ''appointments''))
                           then (Inl (StoreError ''duplicate key value violates unique constraint''), db1)
                           else
                             (Inr [new],
                              db1\<lparr>tables := (tables db)((s, ''appointments'') :=
                                               tables db (s, ''appointments'') @ [new])\<rparr>))))
      | _ \<Rightarrow> (Inl wrong_parameters, db))"

definition create_appointment ::
  "env \<Rightarrow> int \<Rightarrow> string \<Rightarrow> string option \<Rightarrow> int option \<Rightarrow> int option \<Rightarrow> int option \<Rightarrow>
   string \<Rightarrow> string option \<Rightarrow> string option \<Rightarrow> store \<Rightarrow> (error + row option) \<times> store" where
  "create_appointment e patient_id starts_at ends_at provider_id department_id case_id
       status reason location db =
     (if patient_id = 0 then
        (Inl (MissingRequiredField ''patient_id is required''), db)
      else
        (case parse_ts starts_at of
           Inl err \<Rightarrow> (Inl err, db)
         | Inr starts_at_val \<Rightarrow>
             (case (case given ends_at of
                      None \<Rightarrow> Inr Null
                    | Some t \<Rightarrow> (case parse_ts t of Inl err \<Rightarrow> Inl err | Inr v \<Rightarrow> Inr (T v))) of
                Inl err \<Rightarrow> (Inl err, db)
              | Inr ends_at_val \<Rightarrow>
                  (case q_table e ''appointments'' of
                     Inl err \<Rightarrow> (Inl err, db)
                   | Inr appointments \<Rightarrow>
                       (case run_statement e (create_appointment_q appointments)
                               [I patient_id, opt_int provider_id, opt_int department_id,
                                opt_int case_id, T starts_at_val, ends_at_val, T status,
                                opt_text reason, opt_text location]
                               (create_appointment_sem (db_schema e)) db of
                          (Inl err, db') \<Rightarrow> (Inl err, db')
                        | (Inr rows, db') \<Rightarrow> (Inr (fetchone rows), db'))))))"

section \<open>Statements and their row limit\<close>

text \<open>
  A statement carries a bound row limit when its text ends, blanks aside, in
  \<^verbatim>\<open>limit %s\<close>, the last placeholder, and the last bound parameter is an integer
  from 1 to 200.
\<close>

definition is_blank_char :: "char \<Rightarrow> bool" where
  "is_blank_char c \<longleftrightarrow> c = CHR '' '' \<or> c = CHR 0x0A"

definition ends_with_limit :: "string \<Rightarrow> bool" where
  "ends_with_limit q \<longleftrightarrow> prefix (rev ''limit %s'') (dropWhile is_blank_char (rev q))"

definition bound_row_limit :: "string \<times> val list \<Rightarrow> bool" where
  "bound_row_limit st \<longleftrightarrow>
     ends_with_limit (fst st) \<and>
     (case rev (snd st) of I n # _ \<Rightarrow> 1 \<le> n \<and> n \<le> 200 | _ \<Rightarrow> False)"

text \<open>Between two states of the store, every statement it was sent carries a bound
  row limit, and the value bound is \<open>limit\<close>.\<close>

definition sent_with_limit :: "int \<Rightarrow> store \<Rightarrow> store \<Rightarrow> bool" where
  "sent_with_limit limit db db' \<longleftrightarrow>
     (\<exists>stmts. received db' = received db @ stmts \<and>
        list_all (\<lambda>st. bound_row_limit st \<and> last (snd st) = I limit) stmts)"

text \<open>The settings and the store used to run the operations on concrete inputs: the
  default schema, a connection string, and a store with no rows whose collation folds
  the letters A to Z and orders text byte by byte.\<close>

definition env0 :: env where
  "env0 = \<lparr>database_url = Some ''postgresql://localhost/demoHospitalDb'',
           db_schema = ''hospital_crm''\<rparr>"

definition store0 :: store where
  "store0 = \<lparr>tables = (\<lambda>_. []), next_id = (\<lambda>_. 1), clock = 0, ts_in = (\<lambda>_. Some 0),
             reachable = True, casefold = lower, text_less = str_less,
             answers = (\<lambda>_ _. []), received = []\<rparr>"


text \<open>
  Text of ASCII characters only, and a store whose collation lowers such text by
  lowering the letters A to Z. What a collation folds beyond ASCII differs from one
  collation to the next, so what is proved of \<^verbatim>\<open>ILIKE\<close> is stated for ASCII text.
\<close>

definition ascii :: "string \<Rightarrow> bool" where
  "ascii s \<longleftrightarrow> list_all (\<lambda>c. (of_char c :: nat) < 128) s"



text \<open>The settings are usable and the store can be reached: the schema name passes
  validation and a connection opens.\<close>

definition configured :: "env \<Rightarrow> store \<Rightarrow> bool" where
  "configured e db \<longleftrightarrow> schema e = Inr (db_schema e) \<and> get_conn e db = Inr ()"

text \<open>A store with three patients, and one with two invoices and three payments.\<close>

definition patients1 :: "row list" where
  "patients1 =
     [[(''patient_id'', I 1), (''mrn'', T ''M-7''), (''first_name'', T ''Bob''),
       (''last_name'', T ''Lee'')],
      [(''patient_id'', I 2), (''mrn'', T ''''), (''first_name'', T ''Diana''),
       (''last_name'', T ''Abe'')],
      [(''patient_id'', I 3), (''mrn'', Null), (''first_name'', T (''a'' @ [CHR 0x5C] @ ''b'')),
       (''last_name'', T ''Ray'')]]"

definition store1 :: store where
  "store1 = store0\<lparr>tables := (\<lambda>t. if t = (''hospital_crm'', ''patients'') then patients1 else []),
                   next_id := (\<lambda>_. 4)\<rparr>"

definition invoices2 :: "row list" where
  "invoices2 =
     [[(''invoice_id'', I 10), (''patient_id'', I 1), (''total_amount'', R 100)],
      [(''invoice_id'', I 11), (''patient_id'', I 1), (''total_amount'', R 50)]]"

definition payments2 :: "row list" where
  "payments2 =
     [[(''payment_id'', I 1), (''invoice_id'', I 10), (''amount'', R 30)],
      [(''payment_id'', I 2), (''invoice_id'', I 11), (''amount'', R 20)],
      [(''payment_id'', I 3), (''invoice_id'', I 11), (''amount'', R 30)]]"

definition store2 :: store where
  "store2 = store0\<lparr>tables := (\<lambda>t. if t = (''hospital_crm'', ''invoices'') then invoices2
                               else if t = (''hospital_crm'', ''payments'') then payments2
                               else [])\<rparr>"

section \<open>Identifier validation: results\<close>

lemma dropWhile_ident_nil_iff:
  "dropWhile is_ident_char cs = [] \<longleftrightarrow> list_all is_ident_char cs"
  by (induction cs) (simp_all add: list_all_iff)

lemma newline_not_ident_char: "\<not> is_ident_char (CHR 0x0A)"
  by (simp add: is_ident_char_def)

lemma dropWhile_ident_newline_iff:
  "dropWhile is_ident_char cs = nl \<longleftrightarrow>
     (\<exists>body. cs = body @ nl \<and> list_all is_ident_char body)"
proof (induction cs)
  case Nil
  then show ?case by simp
next
  case (Cons c cs)
  show ?case
  proof (cases "is_ident_char c")
    case True
    have "(\<exists>body. c # cs = body @ nl \<and> list_all is_ident_char body) \<longleftrightarrow>
          (\<exists>body. cs = body @ nl \<and> list_all is_ident_char body)"
    proof
      assume "\<exists>body. c # cs = body @ nl \<and> list_all is_ident_char body"
      then obtain body where b: "c # cs = body @ nl" "list_all is_ident_char body"
        by blast
      from b True newline_not_ident_char obtain body' where "body = c # body'"
        by (cases body) auto
      with b show "\<exists>body. cs = body @ nl \<and> list_all is_ident_char body"
        by auto
    next
      assume "\<exists>body. cs = body @ nl \<and> list_all is_ident_char body"
      then obtain body where "cs = body @ nl" "list_all is_ident_char body"
        by blast
      with True have "c # cs = (c # body) @ nl \<and> list_all is_ident_char (c # body)"
        by simp
      then show "\<exists>body. c # cs = body @ nl \<and> list_all is_ident_char body"
        by blast
    qed
    with True Cons.IH show ?thesis by simp
  next
    case False
    have "(\<exists>body. c # cs = body @ nl \<and> list_all is_ident_char body) \<longleftrightarrow> c # cs = nl"
    proof
      assume "\<exists>body. c # cs = body @ nl \<and> list_all is_ident_char body"
      then obtain body where b: "c # cs = body @ nl" "list_all is_ident_char body"
        by blast
      with False show "c # cs = nl" by (cases body) auto
    next
      assume "c # cs = nl"
      then have "c # cs = [] @ nl \<and> list_all is_ident_char []" by simp
      then show "\<exists>body. c # cs = body @ nl \<and> list_all is_ident_char body" by blast
    qed
    with False show ?thesis by simp
  qed
qed

text \<open>What the compiled pattern accepts: the identifiers of the grammar, and each of
  them followed by one newline.\<close>

lemma ident_re_match_iff:
  "ident_re_match s \<longleftrightarrow> is_identifier s \<or> (\<exists>t. s = t @ nl \<and> is_identifier t)"
proof (cases s)
  case Nil
  then show ?thesis by (simp add: is_identifier_def)
next
  case (Cons c cs)
  have "(\<exists>t. c # cs = t @ nl \<and> is_identifier t) \<longleftrightarrow>
        (is_ident_start c \<and> (\<exists>body. cs = body @ nl \<and> list_all is_ident_char body))"
  proof
    assume "\<exists>t. c # cs = t @ nl \<and> is_identifier t"
    then obtain t where t: "c # cs = t @ nl" "is_identifier t" by blast
    then obtain body where "t = c # body" "cs = body @ nl"
      by (cases t) (auto simp: is_identifier_def)
    with t show "is_ident_start c \<and> (\<exists>body. cs = body @ nl \<and> list_all is_ident_char body)"
      by (auto simp: is_identifier_def)
  next
    assume a: "is_ident_start c \<and> (\<exists>body. cs = body @ nl \<and> list_all is_ident_char body)"
    then obtain body where "cs = body @ nl" "list_all is_ident_char body" by blast
    with a have "c # cs = (c # body) @ nl \<and> is_identifier (c # body)"
      by (simp add: is_identifier_def)
    then show "\<exists>t. c # cs = t @ nl \<and> is_identifier t" by blast
  qed
  moreover have "ident_re_match (c # cs) \<longleftrightarrow>
      is_ident_start c \<and>
      (list_all is_ident_char cs \<or> (\<exists>body. cs = body @ nl \<and> list_all is_ident_char body))"
    by (simp only: ident_re_match.simps Let_def dropWhile_ident_nil_iff
        dropWhile_ident_newline_iff)
  moreover have "is_identifier (c # cs) \<longleftrightarrow> is_ident_start c \<and> list_all is_ident_char cs"
    by (simp add: is_identifier_def)
  ultimately have "ident_re_match (c # cs) \<longleftrightarrow>
      is_identifier (c # cs) \<or> (\<exists>t. c # cs = t @ nl \<and> is_identifier t)"
    by (simp only:) blast
  then show ?thesis
    by (simp only: Cons)
qed

lemma validate_ident_grammar:
  "is_identifier s \<Longrightarrow> validate_ident s = Inr s"
  by (simp add: validate_ident_def ident_re_match_iff)

lemma validate_ident_rejects:
  "\<not> is_identifier s \<Longrightarrow> \<not> (\<exists>t. s = t @ nl \<and> is_identifier t) \<Longrightarrow>
     validate_ident s = Inl (InvalidIdentifier s)"
  by (simp add: validate_ident_def ident_re_match_iff)

text \<open>
  C1. The claim: every string outside the identifier grammar is refused with
  \<open>InvalidIdentifier\<close>, every string of the grammar is returned unchanged. The second
  half holds (\<open>validate_ident_grammar\<close>). The first fails: the schema name
  \<^verbatim>\<open>hospital_crm\<close> followed by a newline is outside the grammar, and
  \<open>validate_ident\<close> returns it unchanged, since \<^verbatim>\<open>$\<close> matches before a final newline.
\<close>

theorem validate_ident_trailing_newline:
  "\<not> is_identifier (''hospital_crm'' @ nl) \<and>
   validate_ident (''hospital_crm'' @ nl) = Inr (''hospital_crm'' @ nl)"
  by (simp add: is_identifier_def validate_ident_def is_ident_start_def is_ident_char_def)


section \<open>Validation happens before any statement\<close>

lemma whitespace_nonempty: "w \<in> set whitespace \<Longrightarrow> w \<noteq> []"
  by (auto simp: whitespace_def)

lemma whitespace_prefix_free_closed:
  "list_all (\<lambda>w. list_all (\<lambda>w'. (prefix w' w \<or> prefix w w') = (w' = w)) whitespace) whitespace"
  by code_simp

lemma whitespace_prefix_free:
  assumes "w \<in> set whitespace" "w' \<in> set whitespace" "prefix w' (w @ rest)"
  shows "w' = w"
proof -
  have "prefix w (w @ rest)" by simp
  with assms(3) have "prefix w' w \<or> prefix w w'"
    by (rule prefix_same_cases)
  moreover from whitespace_prefix_free_closed assms(1,2)
  have "(prefix w' w \<or> prefix w w') = (w' = w)"
    by (simp add: list_all_iff)
  ultimately show ?thesis by simp
qed

lemma strip_leading_whitespace_step:
  assumes "w \<in> set whitespace"
  shows "strip_leading whitespace (w @ rest) = strip_leading whitespace rest"
proof -
  from assms have "find (\<lambda>x. prefix x (w @ rest)) whitespace \<noteq> None"
    by (auto simp: find_None_iff)
  then obtain w' where f: "find (\<lambda>x. prefix x (w @ rest)) whitespace = Some w'"
    by blast
  then have "w' \<in> set whitespace" "prefix w' (w @ rest)"
    by (auto simp: find_Some_iff)
  with assms have "w' = w" by (blast intro: whitespace_prefix_free)
  with f assms show ?thesis
    by (subst strip_leading.simps) (simp add: whitespace_nonempty)
qed

lemma strip_leading_nil: "strip_leading (map rev whitespace) [] = []"
  by (subst strip_leading.simps) (simp add: whitespace_def)

lemma lstrip_blank:
  "list_all (\<lambda>w. w \<in> set whitespace) ws \<Longrightarrow> strip_leading whitespace (concat ws) = []"
proof (induction ws)
  case Nil
  show ?case by (subst strip_leading.simps) (simp add: whitespace_def)
next
  case (Cons w ws)
  then show ?case by (simp add: strip_leading_whitespace_step)
qed

lemma blank_strip: "blank s \<Longrightarrow> strip s = []"
  by (auto simp: blank_def strip_def lstrip_def rstrip_def lstrip_blank strip_leading_nil)

lemma parse_ts_blank: "blank s \<Longrightarrow> parse_ts s = Inl MissingTimestamp"
  by (simp add: parse_ts_def blank_strip)

lemma blank_spaces: "blank ''   ''"
proof -
  have "list_all (\<lambda>w. w \<in> set whitespace) ['' '', '' '', '' ''] \<and> ''   '' = concat ['' '', '' '', '' '']"
    by (simp add: whitespace_def)
  then show ?thesis unfolding blank_def by blast
qed

text \<open>
  C3, as amended. A call of \<open>create_appointment\<close> whose \<open>starts_at\<close> is empty or
  only whitespace fails and leaves the store as it was: no statement is sent and no
  row is inserted. The failure is \<open>MissingTimestamp\<close> when \<open>patient_id\<close> is not zero;
  a zero \<open>patient_id\<close> is refused first, as a missing required field.
\<close>

theorem create_appointment_blank_starts_at:
  "blank starts_at \<Longrightarrow>
     create_appointment e patient_id starts_at ends_at provider_id department_id case_id
        status reason location db =
     (Inl (if patient_id = 0 then MissingRequiredField ''patient_id is required''
           else MissingTimestamp), db)"
  by (simp add: create_appointment_def parse_ts_blank)

text \<open>C3, on an input: three spaces for \<open>starts_at\<close>, patient 3.\<close>

theorem create_appointment_blank_starts_at_witness:
  "blank ''   '' \<and>
   create_appointment env0 3 ''   '' None None None None ''scheduled'' None None store0 =
     (Inl MissingTimestamp, store0)"
  using create_appointment_blank_starts_at [of "''   ''" env0 3 None None None None "''scheduled''" None None store0]
    blank_spaces
  by simp

text \<open>
  C3 as stated fails: with \<open>patient_id = 0\<close> and an empty \<open>starts_at\<close> the failure is
  the missing \<open>patient_id\<close>, not \<open>MissingTimestamp\<close>.
\<close>

theorem create_appointment_no_patient_id:
  "create_appointment env0 0 '''' None None None None ''scheduled'' None None store0 =
     (Inl (MissingRequiredField ''patient_id is required''), store0) \<and>
   fst (create_appointment env0 0 '''' None None None None ''scheduled'' None None store0)
     \<noteq> Inl MissingTimestamp"
  by (simp add: create_appointment_def)

text \<open>
  C2. Every read operation that takes a \<open>limit\<close> (or \<open>limit_per_type\<close>) fails with
  \<open>OutOfRange\<close> when it is outside 1 to 200, and the two that take \<open>days\<close> also when
  it is outside 1 to 365; the store is returned as it was, so no statement was sent,
  no connection was opened, and the outcome does not depend on the settings.
\<close>

theorem out_of_range_before_any_statement:
  "(limit < 1 \<or> 200 < limit \<longrightarrow>
      search_patients e name mrn limit db = (Inl (OutOfRange ''limit must be between 1 and 200''), db) \<and>
      outstanding_invoices e pid limit db = (Inl (OutOfRange ''limit must be between 1 and 200''), db) \<and>
      claim_status_for_patient e pid limit db = (Inl (OutOfRange ''limit must be between 1 and 200''), db) \<and>
      active_prescriptions e pid limit db = (Inl (OutOfRange ''limit must be between 1 and 200''), db) \<and>
      patient_case_timeline e pid limit db = (Inl (OutOfRange ''limit_per_type must be between 1 and 200''), db)) \<and>
   (days < 1 \<or> 365 < days \<or> limit < 1 \<or> 200 < limit \<longrightarrow>
      (\<exists>msg. upcoming_appointments_for_patient e pid days limit db = (Inl (OutOfRange msg), db)) \<and>
      (\<exists>msg. upcoming_appointments_for_provider e pid days limit db = (Inl (OutOfRange msg), db)))"
  by (simp add: search_patients_def outstanding_invoices_def claim_status_for_patient_def
      active_prescriptions_def patient_case_timeline_def upcoming_appointments_for_patient_def
      upcoming_appointments_for_provider_def)

text \<open>C2, on inputs: a limit of 0 and 366 days.\<close>

theorem out_of_range_before_any_statement_witness:
  "search_patients env0 None None 0 store0 = (Inl (OutOfRange ''limit must be between 1 and 200''), store0) \<and>
   outstanding_invoices env0 7 0 store0 = (Inl (OutOfRange ''limit must be between 1 and 200''), store0) \<and>
   claim_status_for_patient env0 7 0 store0 = (Inl (OutOfRange ''limit must be between 1 and 200''), store0) \<and>
   active_prescriptions env0 7 0 store0 = (Inl (OutOfRange ''limit must be between 1 and 200''), store0) \<and>
   patient_case_timeline env0 7 0 store0 = (Inl (OutOfRange ''limit_per_type must be between 1 and 200''), store0) \<and>
   (\<exists>msg. upcoming_appointments_for_patient env0 7 366 0 store0 = (Inl (OutOfRange msg), store0)) \<and>
   (\<exists>msg. upcoming_appointments_for_provider env0 7 366 0 store0 = (Inl (OutOfRange msg), store0))"
  using out_of_range_before_any_statement [of 0 env0 None None store0 7 366]
  by simp

lemma given_empty: "given (Some []) = None"
  by (simp add: given_def)

lemma given_none: "given None = None"
  by (simp add: given_def)

text \<open>
  C10. In \<open>search_patients\<close> an empty \<open>mrn\<close> and an empty \<open>name\<close> are the same as
  an absent one: the same statement with the same parameters is sent and the same
  rows come back, so no clause is built for the empty string.
\<close>

theorem search_patients_empty_is_absent:
  "search_patients e name (Some []) limit db = search_patients e name None limit db \<and>
   search_patients e (Some []) mrn limit db = search_patients e None mrn limit db"
  unfolding search_patients_def given_empty given_none by simp

text \<open>C10, on an input: with an empty record number the search returns all three
  patients, as without one; it does not look for the patient whose record number is
  the empty string.\<close>

theorem search_patients_empty_is_absent_witness:
  "search_patients env0 None (Some []) 20 store1 = search_patients env0 None None 20 store1 \<and>
   map_sum id (map (\<lambda>r. col r ''patient_id''))
     (fst (search_patients env0 None (Some []) 20 store1)) = Inr [I 2, I 1, I 3]"
proof -
  have "map_sum id (map (\<lambda>r. col r ''patient_id''))
     (fst (search_patients env0 None None 20 store1)) = Inr [I 2, I 1, I 3]"
    by code_simp
  with search_patients_empty_is_absent [of env0 None 20 store1 None] show ?thesis
    by simp
qed


section \<open>Looking a patient up\<close>

lemma table_names_valid:
  "validate_ident ''patients'' = Inr ''patients''"
  "validate_ident ''patient_contacts'' = Inr ''patient_contacts''"
  "validate_ident ''appointments'' = Inr ''appointments''"
  "validate_ident ''providers'' = Inr ''providers''"
  "validate_ident ''departments'' = Inr ''departments''"
  "validate_ident ''cases'' = Inr ''cases''"
  "validate_ident ''encounters'' = Inr ''encounters''"
  "validate_ident ''notes'' = Inr ''notes''"
  "validate_ident ''tasks'' = Inr ''tasks''"
  "validate_ident ''communications'' = Inr ''communications''"
  "validate_ident ''invoices'' = Inr ''invoices''"
  "validate_ident ''payments'' = Inr ''payments''"
  "validate_ident ''claims'' = Inr ''claims''"
  "validate_ident ''payers'' = Inr ''payers''"
  "validate_ident ''allergies'' = Inr ''allergies''"
  "validate_ident ''prescriptions'' = Inr ''prescriptions''"
  "validate_ident ''medications'' = Inr ''medications''"
  by (simp_all add: validate_ident_def is_ident_start_def is_ident_char_def)

lemma q_table_cases:
  "q_table e t =
     (case schema e of
        Inl err \<Rightarrow> Inl err
      | Inr s \<Rightarrow> (case validate_ident t of
                   Inl err \<Rightarrow> Inl err
                 | Inr t' \<Rightarrow> Inr (dq @ s @ dq @ ''.'' @ dq @ t' @ dq)))"
  by (simp add: q_table_def)

lemma configured_env0: "configured env0 store0"
  by (simp add: configured_def env0_def store0_def schema_def validate_ident_def get_conn_def
      is_ident_start_def is_ident_char_def)

lemma configured_store1: "configured env0 store1"
  by (simp add: configured_def env0_def store0_def store1_def schema_def validate_ident_def get_conn_def
      is_ident_start_def is_ident_char_def)

lemma get_patient_run:
  assumes "configured e db"
  shows "get_patient e pid db =
     (Inr (case filter (\<lambda>r. sql_eq (col r ''patient_id'') (I pid)) (tables db (db_schema e, ''patients'')) of
             [] \<Rightarrow> not_found
           | r # _ \<Rightarrow> if r = [] then not_found else r),
      db\<lparr>received := received db @
           [(get_patient_q (dq @ db_schema e @ dq @ ''.'' @ dq @ ''patients'' @ dq), [I pid])]\<rparr>)"
  using assms
  by (simp add: get_patient_def configured_def q_table_cases table_names_valid run_statement_def
      execute_def has_nul_def get_patient_sem_def fetchone_def split: list.splits)

text \<open>
  C5. With usable settings and a reachable store, \<open>get_patient\<close> for an id that no
  patient row has returns the record \<^verbatim>\<open>{"error": "patient not found"}\<close> as its
  result: not a failure of the gateway and not an error of the store.
\<close>

theorem get_patient_not_found:
  assumes "configured e db"
    and "list_all (\<lambda>r. col r ''patient_id'' \<noteq> I pid) (tables db (db_schema e, ''patients''))"
  shows "fst (get_patient e pid db) = Inr not_found"
proof -
  from assms(2)
  have "filter (\<lambda>r. sql_eq (col r ''patient_id'') (I pid)) (tables db (db_schema e, ''patients'')) = []"
    by (auto simp: filter_empty_conv list_all_iff sql_eq_def)
  with assms(1) show ?thesis
    by (simp add: get_patient_run)
qed

text \<open>C5, on an input: id 5 in a store whose patients have the ids 1, 2 and 3.\<close>

theorem get_patient_not_found_witness:
  "fst (get_patient env0 5 store1) = Inr [(''error'', T ''patient not found'')]"
proof -
  have "list_all (\<lambda>r. col r ''patient_id'' \<noteq> I 5) (tables store1 (db_schema env0, ''patients''))"
    by (simp add: store1_def store0_def env0_def patients1_def col_def)
  from get_patient_not_found [OF configured_store1 this] show ?thesis
    by (simp add: not_found_def)
qed

text \<open>The record is told apart from a patient: a patient that is found carries its
  \<open>patient_id\<close>.\<close>

lemma get_patient_found:
  assumes "configured e db"
    and "r \<in> set (tables db (db_schema e, ''patients''))" "col r ''patient_id'' = I pid"
  shows "\<exists>r'. fst (get_patient e pid db) = Inr r' \<and> col r' ''patient_id'' = I pid \<and> r' \<noteq> not_found"
proof -
  let ?f = "filter (\<lambda>r. sql_eq (col r ''patient_id'') (I pid)) (tables db (db_schema e, ''patients''))"
  from assms(2,3) have "r \<in> set ?f" by (simp add: sql_eq_def)
  then obtain r' rs where f: "?f = r' # rs" by (cases ?f) auto
  then have "r' \<in> set ?f" by simp
  then have c: "col r' ''patient_id'' = I pid" by (simp add: sql_eq_def)
  then have "r' \<noteq> []" "r' \<noteq> not_found" by (auto simp: col_def not_found_def)
  with assms(1) f c show ?thesis by (simp add: get_patient_run)
qed


section \<open>Creating a patient and reading it back\<close>

lemma strip_Ana: "strip ''Ana'' = ''Ana''" by code_simp
lemma strip_Ruiz: "strip ''Ruiz'' = ''Ruiz''" by code_simp

lemma q_table_Inr_schema: "q_table e t = Inr qt \<Longrightarrow> schema e = Inr (db_schema e)"
  by (auto simp: q_table_def schema_def validate_ident_def split: sum.splits if_splits)

lemma run_statement_Inr_conn:
  "run_statement e q ps sem db = (Inr rows, db') \<Longrightarrow> get_conn e db = Inr ()"
  by (auto simp: run_statement_def split: sum.splits)

lemma run_statement_Inr_sem:
  "run_statement e q ps sem db = (Inr rows, db') \<Longrightarrow>
     sem ps (db\<lparr>received := received db @ [(q, ps)]\<rparr>) = (Inr rows, db')"
  by (auto simp: run_statement_def execute_def split: sum.splits if_splits)

lemma create_patient_sem_run:
  "create_patient_sem s [mrn, first_name, last_name, dob, sex, phone, email, address_line1,
       address_line2, city, state, postal_code, country, status] db =
     (if list_ex (\<lambda>r. col r ''patient_id'' = I (next_id db (s, ''patients'')))
           (tables db (s, ''patients''))
      then (Inl (StoreError ''duplicate key value violates unique constraint''),
            db\<lparr>next_id := (next_id db)((s, ''patients'') := next_id db (s, ''patients'') + 1)\<rparr>)
      else
        (Inr [[(''patient_id'', I (next_id db (s, ''patients''))), (''mrn'', mrn),
               (''first_name'', first_name), (''last_name'', last_name), (''dob'', dob),
               (''sex'', sex), (''phone'', phone), (''email'', email), (''status'', status),
               (''created_at'', TS (clock db))]],
         db\<lparr>next_id := (next_id db)((s, ''patients'') := next_id db (s, ''patients'') + 1),
            tables := (tables db)((s, ''patients'') :=
              tables db (s, ''patients'') @
                [[(''patient_id'', I (next_id db (s, ''patients''))), (''mrn'', mrn),
                  (''first_name'', first_name), (''last_name'', last_name), (''dob'', dob),
                  (''sex'', sex), (''phone'', phone), (''email'', email),
                  (''address_line1'', address_line1), (''address_line2'', address_line2),
                  (''city'', city), (''state'', state), (''postal_code'', postal_code),
                  (''country'', country), (''status'', status),
                  (''created_at'', TS (clock db)), (''updated_at'', TS (clock db))]])\<rparr>))"
  by (simp add: create_patient_sem_def Let_def project_def col_def)

lemma create_patient_Ana:
  "create_patient e ''Ana'' ''Ruiz'' mrn dob sex phone email address_line1
       address_line2 city state postal_code country status db =
     (case parse_date dob of
        Inl err \<Rightarrow> (Inl err, db)
      | Inr dob_val \<Rightarrow>
          (case q_table e ''patients'' of
             Inl err \<Rightarrow> (Inl err, db)
           | Inr patients \<Rightarrow>
               (case run_statement e (create_patient_q patients)
                       [opt_text mrn, T ''Ana'', T ''Ruiz'',
                        opt_date dob_val, opt_text sex, opt_text phone, opt_text email,
                        opt_text address_line1, opt_text address_line2, opt_text city,
                        opt_text state, opt_text postal_code, T country, T status]
                       (create_patient_sem (db_schema e)) db of
                  (Inl err, db') \<Rightarrow> (Inl err, db')
                | (Inr rows, db') \<Rightarrow> (Inr (fetchone rows), db'))))"
  unfolding create_patient_def strip_Ana strip_Ruiz by simp

text \<open>
  C9. When \<open>create_patient\<close> with first name Ana, last name Ruiz and record number
  M-1 returns a record, whatever the store held and whatever the other arguments, the
  record carries an integer \<open>patient_id\<close>, and \<open>get_patient\<close> for that id on the
  store left by the creation returns a record with these three fields and this id.
\<close>

theorem create_then_get_patient:
  assumes "create_patient e ''Ana'' ''Ruiz'' (Some ''M-1'') dob sex phone email address_line1
             address_line2 city state postal_code country status db = (Inr created, db')"
  shows "\<exists>made pid found.
           created = Some made \<and> col made ''patient_id'' = I pid \<and>
           fst (get_patient e pid db') = Inr found \<and>
           col found ''first_name'' = T ''Ana'' \<and> col found ''last_name'' = T ''Ruiz'' \<and>
           col found ''mrn'' = T ''M-1'' \<and> col found ''patient_id'' = I pid"
proof -
  let ?s = "db_schema e"
  let ?pid = "next_id db (?s, ''patients'')"
  note a = assms [unfolded create_patient_Ana]
  from a obtain dob_val where d: "parse_date dob = Inr dob_val"
    by (cases "parse_date dob") simp_all
  from a d obtain qt where q: "q_table e ''patients'' = Inr qt"
    by (cases "q_table e ''patients''") simp_all
  let ?ps = "[opt_text (Some ''M-1''), T ''Ana'', T ''Ruiz'', opt_date dob_val, opt_text sex,
           opt_text phone, opt_text email, opt_text address_line1, opt_text address_line2,
           opt_text city, opt_text state, opt_text postal_code, T country, T status]"
  let ?run = "run_statement e (create_patient_q qt) ?ps (create_patient_sem ?s) db"
  from a d q obtain rows where r: "?run = (Inr rows, db')" and c: "created = fetchone rows"
    by (cases ?run; cases "fst ?run") auto
  from q have sch: "schema e = Inr ?s" by (rule q_table_Inr_schema)
  from r have conn: "get_conn e db = Inr ()" by (rule run_statement_Inr_conn)
  define new where "new =
     [(''patient_id'', I ?pid), (''mrn'', T ''M-1''), (''first_name'', T ''Ana''),
      (''last_name'', T ''Ruiz''), (''dob'', opt_date dob_val), (''sex'', opt_text sex),
      (''phone'', opt_text phone), (''email'', opt_text email),
      (''address_line1'', opt_text address_line1), (''address_line2'', opt_text address_line2),
      (''city'', opt_text city), (''state'', opt_text state),
      (''postal_code'', opt_text postal_code), (''country'', T country), (''status'', T status),
      (''created_at'', TS (clock db)), (''updated_at'', TS (clock db))]"
  let ?db0 = "db\<lparr>received := received db @ [(create_patient_q qt, ?ps)]\<rparr>"
  from r have sem: "create_patient_sem ?s ?ps ?db0 = (Inr rows, db')"
    by (rule run_statement_Inr_sem)
  have fresh: "\<not> list_ex (\<lambda>r. col r ''patient_id'' = I ?pid) (tables db (?s, ''patients''))"
  proof
    assume "list_ex (\<lambda>r. col r ''patient_id'' = I ?pid) (tables db (?s, ''patients''))"
    with sem show False by (simp add: create_patient_sem_run)
  qed
  with sem have
    rows: "rows = [[(''patient_id'', I ?pid), (''mrn'', T ''M-1''),
               (''first_name'', T ''Ana''), (''last_name'', T ''Ruiz''), (''dob'', opt_date dob_val),
               (''sex'', opt_text sex), (''phone'', opt_text phone), (''email'', opt_text email),
               (''status'', T status), (''created_at'', TS (clock db))]]" and
    db': "db' = ?db0\<lparr>next_id := (next_id db)((?s, ''patients'') := ?pid + 1),
            tables := (tables db)((?s, ''patients'') := tables db (?s, ''patients'') @ [new])\<rparr>"
    by (simp_all add: create_patient_sem_run opt_text_def new_def)
  from db' have tab: "tables db' (?s, ''patients'') = tables db (?s, ''patients'') @ [new]"
    and reach: "reachable db' = reachable db"
    by simp_all
  from reach have "get_conn e db' = get_conn e db"
    by (simp add: get_conn_def)
  with conn sch have conf: "configured e db'"
    by (simp add: configured_def)
  from fresh have
    "filter (\<lambda>r. sql_eq (col r ''patient_id'') (I ?pid)) (tables db (?s, ''patients'')) = []"
    by (auto simp: filter_empty_conv list_ex_iff sql_eq_def)
  moreover have "sql_eq (col new ''patient_id'') (I ?pid)"
    by (simp add: sql_eq_def new_def col_def)
  ultimately have
    "filter (\<lambda>r. sql_eq (col r ''patient_id'') (I ?pid)) (tables db' (?s, ''patients'')) = [new]"
    using tab by simp
  moreover have "new \<noteq> []" by (simp add: new_def)
  ultimately have g: "fst (get_patient e ?pid db') = Inr new"
    using conf by (simp add: get_patient_run)
  from c rows have m: "created = Some (hd rows)" "col (hd rows) ''patient_id'' = I ?pid"
    by (simp_all add: fetchone_def col_def)
  have "col new ''first_name'' = T ''Ana''" "col new ''last_name'' = T ''Ruiz''"
    "col new ''mrn'' = T ''M-1''" "col new ''patient_id'' = I ?pid"
    by (simp_all add: col_def new_def)
  with g m show ?thesis by blast
qed

lemma create_patient_store1:
  "fst (create_patient env0 ''Ana'' ''Ruiz'' (Some ''M-1'') None None None None None None None None None
     ''USA'' ''active'' store1) =
   Inr (Some [(''patient_id'', I 4), (''mrn'', T ''M-1''), (''first_name'', T ''Ana''),
               (''last_name'', T ''Ruiz''), (''dob'', Null), (''sex'', Null), (''phone'', Null),
               (''email'', Null), (''status'', T ''active''), (''created_at'', TS 0)])"
  by (simp add: create_patient_def strip_Ana strip_Ruiz parse_date_def q_table_cases schema_def
      table_names_valid env0_def store1_def store0_def run_statement_def get_conn_def execute_def
      has_nul_def create_patient_sem_def Let_def patients1_def col_def project_def fetchone_def opt_text_def
      opt_date_def validate_ident_def is_ident_start_def is_ident_char_def)

text \<open>C9, on an input: the creation succeeds on the store of three patients and the
  new patient is read back.\<close>

theorem create_then_get_patient_witness:
  "\<exists>made pid found.
      fst (create_patient env0 ''Ana'' ''Ruiz'' (Some ''M-1'') None None None None None None None
             None None ''USA'' ''active'' store1) = Inr (Some made) \<and>
      col made ''patient_id'' = I pid \<and>
      fst (get_patient env0 pid
             (snd (create_patient env0 ''Ana'' ''Ruiz'' (Some ''M-1'') None None None None None
                     None None None None ''USA'' ''active'' store1))) = Inr found \<and>
      col found ''first_name'' = T ''Ana'' \<and> col found ''last_name'' = T ''Ruiz'' \<and>
      col found ''mrn'' = T ''M-1'' \<and> col found ''patient_id'' = I pid"
proof -
  let ?run = "create_patient env0 ''Ana'' ''Ruiz'' (Some ''M-1'') None None None None None None
                None None None ''USA'' ''active'' store1"
  let ?created = "Some [(''patient_id'', I 4), (''mrn'', T ''M-1''), (''first_name'', T ''Ana''),
               (''last_name'', T ''Ruiz''), (''dob'', Null), (''sex'', Null), (''phone'', Null),
               (''email'', Null), (''status'', T ''active''), (''created_at'', TS 0)]"
  have run: "?run = (Inr ?created, snd ?run)"
    by (rule prod_eqI) (simp_all only: fst_conv snd_conv create_patient_store1)
  from create_then_get_patient [OF run] obtain made pid found where
    "?created = Some made" "col made ''patient_id'' = I pid"
    "fst (get_patient env0 pid (snd ?run)) = Inr found"
    "col found ''first_name'' = T ''Ana''" "col found ''last_name'' = T ''Ruiz''"
    "col found ''mrn'' = T ''M-1''" "col found ''patient_id'' = I pid"
    by blast
  with create_patient_store1 show ?thesis by metis
qed


section \<open>Row limits of the read operations\<close>

lemma ends_with_limit_append: "ends_with_limit y \<Longrightarrow> ends_with_limit (x @ y)"
proof -
  assume a: "ends_with_limit y"
  let ?d = "dropWhile is_blank_char (rev y)"
  from a have p: "prefix (rev ''limit %s'') ?d" by (simp add: ends_with_limit_def)
  have "?d \<noteq> []"
  proof (rule notI)
    assume e: "?d = []"
    from p show False unfolding e by simp
  qed
  then have "dropWhile is_blank_char (rev y @ rev x) = ?d @ rev x"
    by (metis dropWhile_append1 dropWhile_eq_Nil_conv)
  with p show ?thesis by (simp add: ends_with_limit_def)
qed

lemma ends_with_limit_tail4: "ends_with_limit (''    limit %s'' @ nl @ ''    '')"
  by (simp add: ends_with_limit_def is_blank_char_def)

lemma ends_with_limit_tail12: "ends_with_limit (''            limit %s'' @ nl @ ''            '')"
  by (simp add: ends_with_limit_def is_blank_char_def)

lemmas limit_tail = ends_with_limit_tail4 ends_with_limit_tail12

lemma limit_texts:
  "ends_with_limit (search_patients_q p w)"
  "ends_with_limit (upcoming_appointments_for_patient_q a b c)"
  "ends_with_limit (upcoming_appointments_for_provider_q a b c)"
  "ends_with_limit (timeline_cases_q p)"
  "ends_with_limit (timeline_encounters_q p)"
  "ends_with_limit (timeline_notes_q p)"
  "ends_with_limit (timeline_tasks_q p)"
  "ends_with_limit (timeline_communications_q p)"
  "ends_with_limit (outstanding_invoices_q a b)"
  "ends_with_limit (claim_status_for_patient_q a b)"
  "ends_with_limit (active_prescriptions_q a b)"
  unfolding search_patients_q_def upcoming_appointments_for_patient_q_def
    upcoming_appointments_for_provider_q_def timeline_cases_q_def timeline_encounters_q_def
    timeline_notes_q_def timeline_tasks_q_def timeline_communications_q_def
    outstanding_invoices_q_def claim_status_for_patient_q_def active_prescriptions_q_def
  by ((rule limit_tail | rule ends_with_limit_append)+)


lemma select_patients_store: "snd (select_patients s cond bound db) = db"
  by (simp add: select_patients_def)

lemma search_patients_sem_store: "snd (search_patients_sem s a b ps db) = db"
  by (simp add: search_patients_sem_def select_patients_store split: list.splits)

lemma outstanding_invoices_sem_store: "snd (outstanding_invoices_sem s ps db) = db"
  by (simp add: outstanding_invoices_sem_def split: list.splits)

lemma run_statement_received:
  assumes "\<And>d. snd (sem ps d) = d"
  shows "received (snd (run_statement e q ps sem db)) =
           received db @
             (if get_conn e db = Inr () \<and> \<not> list_ex has_nul ps then [(q, ps)] else [])"
  using assms by (cases "get_conn e db") (simp_all add: run_statement_def execute_def)

lemma opaque_store: "snd (opaque q ps d) = d"
  by (simp add: opaque_def)

lemma sent_with_limitI:
  "received db' = received db @ stmts \<Longrightarrow>
   list_all (\<lambda>st. bound_row_limit st \<and> last (snd st) = I limit) stmts \<Longrightarrow> sent_with_limit limit db db'"
  unfolding sent_with_limit_def by blast

lemma sent_with_limit_refl: "sent_with_limit limit db db"
  by (rule sent_with_limitI [where stmts = "[]"]) simp_all

lemma sent_with_limit_run:
  assumes "\<And>p d. snd (sem p d) = d" "bound_row_limit (q, ps)" "last ps = I limit"
  shows "sent_with_limit limit db (snd (run_statement e q ps sem db))"
proof (cases "get_conn e db = Inr () \<and> \<not> list_ex has_nul ps")
  case True
  with assms(1) have "received (snd (run_statement e q ps sem db)) = received db @ [(q, ps)]"
    by (simp add: run_statement_received)
  with assms(2,3) show ?thesis
    by (intro sent_with_limitI [where stmts = "[(q, ps)]"]) simp_all
next
  case False
  with assms(1) have "received (snd (run_statement e q ps sem db)) = received db @ []"
    by (simp add: run_statement_received)
  then show ?thesis
    by (intro sent_with_limitI [where stmts = "[]"]) simp_all
qed

lemma sent_with_limit_trans:
  "sent_with_limit limit db db1 \<Longrightarrow> sent_with_limit limit db1 db2 \<Longrightarrow> sent_with_limit limit db db2"
  unfolding sent_with_limit_def by auto

lemma sent_with_limit_search_patients:
  "sent_with_limit limit db (snd (search_patients e name mrn limit db))"
proof (cases "limit < 1 \<or> limit > 200")
  case True
  then show ?thesis by (simp add: search_patients_def sent_with_limit_refl)
next
  case False
  then have b: "1 \<le> limit" "limit \<le> 200" by simp_all
  show ?thesis
  proof (cases "q_table e ''patients''")
    case (Inl err)
    with False show ?thesis
      by (simp add: search_patients_def sent_with_limit_refl split: prod.splits)
  next
    case (Inr qt)
    with False b show ?thesis
      by (cases "given mrn"; cases "given name")
         (auto simp: search_patients_def search_patients_sem_store bound_row_limit_def
            limit_texts intro!: sent_with_limit_run)
  qed
qed

lemma sent_with_limit_two_tables:
  assumes "1 \<le> limit" "limit \<le> 200" "\<And>a b. ends_with_limit (mk a b)"
    "\<And>a b p d. snd (sem a b p d) = d"
  shows "sent_with_limit limit db
     (snd (case q_table e t1 of
        Inl err \<Rightarrow> (Inl err, db)
      | Inr a \<Rightarrow>
          (case q_table e t2 of
             Inl err \<Rightarrow> (Inl err, db)
           | Inr b \<Rightarrow> run_statement e (mk a b) [I pid, I limit] (sem a b) db)))"
  using assms
  by (auto simp: sent_with_limit_refl bound_row_limit_def split: sum.splits intro!: sent_with_limit_run)

lemma sent_with_limit_outstanding_invoices:
  "sent_with_limit limit db (snd (outstanding_invoices e pid limit db))"
proof (cases "limit < 1 \<or> limit > 200")
  case True
  then show ?thesis by (simp add: outstanding_invoices_def sent_with_limit_refl)
next
  case False
  then have "1 \<le> limit" "limit \<le> 200" by simp_all
  from sent_with_limit_two_tables [OF this, of outstanding_invoices_q
      "\<lambda>a b. outstanding_invoices_sem (db_schema e)"] False
  show ?thesis
    by (simp add: outstanding_invoices_def limit_texts outstanding_invoices_sem_store)
qed

lemma sent_with_limit_claim_status:
  "sent_with_limit limit db (snd (claim_status_for_patient e pid limit db))"
proof (cases "limit < 1 \<or> limit > 200")
  case True
  then show ?thesis by (simp add: claim_status_for_patient_def sent_with_limit_refl)
next
  case False
  then have "1 \<le> limit" "limit \<le> 200" by simp_all
  from sent_with_limit_two_tables [OF this, of claim_status_for_patient_q
      "\<lambda>a b. opaque (claim_status_for_patient_q a b)"] False
  show ?thesis
    unfolding claim_status_for_patient_def Let_def by (simp add: limit_texts opaque_store)
qed

lemma sent_with_limit_active_prescriptions:
  "sent_with_limit limit db (snd (active_prescriptions e pid limit db))"
proof (cases "limit < 1 \<or> limit > 200")
  case True
  then show ?thesis by (simp add: active_prescriptions_def sent_with_limit_refl)
next
  case False
  then have "1 \<le> limit" "limit \<le> 200" by simp_all
  from sent_with_limit_two_tables [OF this, of active_prescriptions_q
      "\<lambda>a b. opaque (active_prescriptions_q a b)"] False
  show ?thesis
    unfolding active_prescriptions_def Let_def by (simp add: limit_texts opaque_store)
qed

lemma sent_with_limit_three_tables:
  assumes "1 \<le> limit" "limit \<le> 200" "\<And>a b c. ends_with_limit (mk a b c)"
  shows "sent_with_limit limit db
     (snd (case q_table e t1 of
        Inl err \<Rightarrow> (Inl err, db)
      | Inr a \<Rightarrow>
          (case q_table e t2 of
             Inl err \<Rightarrow> (Inl err, db)
           | Inr b \<Rightarrow>
               (case q_table e t3 of
                  Inl err \<Rightarrow> (Inl err, db)
                | Inr c \<Rightarrow>
                    run_statement e (mk a b c) [I pid, I days, I limit]
                      (opaque (mk a b c)) db))))"
  using assms
  by (auto simp: sent_with_limit_refl bound_row_limit_def opaque_store split: sum.splits
      intro!: sent_with_limit_run)

lemma sent_with_limit_upcoming_patient:
  "sent_with_limit limit db (snd (upcoming_appointments_for_patient e pid days limit db))"
proof (cases "days < 1 \<or> days > 365 \<or> limit < 1 \<or> limit > 200")
  case True
  then show ?thesis
    by (auto simp: upcoming_appointments_for_patient_def sent_with_limit_refl)
next
  case False
  then have "1 \<le> limit" "limit \<le> 200" by simp_all
  from sent_with_limit_three_tables [OF this, of upcoming_appointments_for_patient_q] False
  show ?thesis
    unfolding upcoming_appointments_for_patient_def Let_def by (simp add: limit_texts)
qed

lemma sent_with_limit_upcoming_provider:
  "sent_with_limit limit db (snd (upcoming_appointments_for_provider e pid days limit db))"
proof (cases "days < 1 \<or> days > 365 \<or> limit < 1 \<or> limit > 200")
  case True
  then show ?thesis
    by (auto simp: upcoming_appointments_for_provider_def sent_with_limit_refl)
next
  case False
  then have "1 \<le> limit" "limit \<le> 200" by simp_all
  from sent_with_limit_three_tables [OF this, of upcoming_appointments_for_provider_q] False
  show ?thesis
    unfolding upcoming_appointments_for_provider_def Let_def by (simp add: limit_texts)
qed

lemma sent_with_limit_timeline_query:
  assumes "1 \<le> limit" "limit \<le> 200" "\<And>a. ends_with_limit (mk a)"
  shows "sent_with_limit limit db (snd (timeline_query e t mk [I pid, I limit] db))"
proof (cases "q_table e t")
  case (Inl err)
  then show ?thesis by (simp add: timeline_query_def sent_with_limit_refl)
next
  case (Inr qt)
  have "received (snd (timeline_query e t mk [I pid, I limit] db)) =
          received db @ [(mk qt, [I pid, I limit])]"
    using Inr by (simp add: timeline_query_def execute_def has_nul_def opaque_def)
  with assms show ?thesis
    by (intro sent_with_limitI [where stmts = "[(mk qt, [I pid, I limit])]"])
       (simp_all add: bound_row_limit_def)
qed

lemma sent_with_limit_timeline:
  "sent_with_limit limit db (snd (patient_case_timeline e pid limit db))"
proof (cases "limit < 1 \<or> limit > 200")
  case True
  then show ?thesis by (simp add: patient_case_timeline_def sent_with_limit_refl)
next
  case False
  then have b: "1 \<le> limit" "limit \<le> 200" by simp_all
  note q = sent_with_limit_timeline_query [OF b]
  let ?ps = "[I pid, I limit]"
  obtain r1 db1 where s1: "timeline_query e ''cases'' timeline_cases_q ?ps db = (r1, db1)"
    by (cases "timeline_query e ''cases'' timeline_cases_q ?ps db")
  obtain r2 db2 where s2: "timeline_query e ''encounters'' timeline_encounters_q ?ps db1 = (r2, db2)"
    by (cases "timeline_query e ''encounters'' timeline_encounters_q ?ps db1")
  obtain r3 db3 where s3: "timeline_query e ''notes'' timeline_notes_q ?ps db2 = (r3, db3)"
    by (cases "timeline_query e ''notes'' timeline_notes_q ?ps db2")
  obtain r4 db4 where s4: "timeline_query e ''tasks'' timeline_tasks_q ?ps db3 = (r4, db4)"
    by (cases "timeline_query e ''tasks'' timeline_tasks_q ?ps db3")
  obtain r5 db5 where s5: "timeline_query e ''communications'' timeline_communications_q ?ps db4 = (r5, db5)"
    by (cases "timeline_query e ''communications'' timeline_communications_q ?ps db4")
  from q [of timeline_cases_q db e "''cases''" pid] s1
  have l1: "sent_with_limit limit db db1" by (simp add: limit_texts)
  from q [of timeline_encounters_q db1 e "''encounters''" pid] s2
  have "sent_with_limit limit db1 db2" by (simp add: limit_texts)
  with l1 have l2: "sent_with_limit limit db db2" by (rule sent_with_limit_trans)
  from q [of timeline_notes_q db2 e "''notes''" pid] s3
  have "sent_with_limit limit db2 db3" by (simp add: limit_texts)
  with l2 have l3: "sent_with_limit limit db db3" by (rule sent_with_limit_trans)
  from q [of timeline_tasks_q db3 e "''tasks''" pid] s4
  have "sent_with_limit limit db3 db4" by (simp add: limit_texts)
  with l3 have l4: "sent_with_limit limit db db4" by (rule sent_with_limit_trans)
  from q [of timeline_communications_q db4 e "''communications''" pid] s5
  have "sent_with_limit limit db4 db5" by (simp add: limit_texts)
  with l4 have l5: "sent_with_limit limit db db5" by (rule sent_with_limit_trans)
  from False s1 s2 s3 s4 s5 l1 l2 l3 l4 l5 show ?thesis
    by (simp add: patient_case_timeline_def sent_with_limit_refl split: sum.splits)
qed

text \<open>
  C7, as amended. Every statement sent by a multi-row read operation that takes a
  limit (\<open>search_patients\<close>, the two listings of upcoming appointments, the five
  statements of \<open>patient_case_timeline\<close>, \<open>outstanding_invoices\<close>,
  \<open>claim_status_for_patient\<close> and \<open>active_prescriptions\<close>) ends in the placeholder
  \<^verbatim>\<open>limit %s\<close> and binds the caller's limit, an integer from 1 to 200, as its last
  parameter. The three listings without a limit argument are not among them.
\<close>

theorem row_limit_is_bound_parameter:
  "sent_with_limit limit db (snd (search_patients e name mrn limit db)) \<and>
   sent_with_limit limit db (snd (upcoming_appointments_for_patient e pid days limit db)) \<and>
   sent_with_limit limit db (snd (upcoming_appointments_for_provider e pid days limit db)) \<and>
   sent_with_limit limit db (snd (patient_case_timeline e pid limit db)) \<and>
   sent_with_limit limit db (snd (outstanding_invoices e pid limit db)) \<and>
   sent_with_limit limit db (snd (claim_status_for_patient e pid limit db)) \<and>
   sent_with_limit limit db (snd (active_prescriptions e pid limit db))"
  by (intro conjI sent_with_limit_search_patients sent_with_limit_upcoming_patient sent_with_limit_upcoming_provider
      sent_with_limit_timeline sent_with_limit_outstanding_invoices sent_with_limit_claim_status
      sent_with_limit_active_prescriptions)


lemma search_patients_ana_statement:
  "received (snd (search_patients env0 (Some ''ana'') None 20 store0)) =
     [(search_patients_q (dq @ ''hospital_crm'' @ dq @ ''.'' @ dq @ ''patients'' @ dq)
         '' where (first_name ILIKE %s OR last_name ILIKE %s)'',
       [T ''%ana%'', T ''%ana%'', I 20])]"
  by (simp add: search_patients_def given_def q_table_cases table_names_valid schema_def
      validate_ident_def is_ident_start_def is_ident_char_def env0_def store0_def
      run_statement_def get_conn_def execute_def has_nul_def search_patients_sem_store)

text \<open>C7, on inputs: a limit of 20; the statement of the patient search is the one
  shown, with the limit as third parameter.\<close>

theorem row_limit_is_bound_parameter_witness:
  "sent_with_limit 20 store0 (snd (search_patients env0 (Some ''ana'') None 20 store0)) \<and>
   sent_with_limit 20 store0 (snd (upcoming_appointments_for_patient env0 7 30 20 store0)) \<and>
   sent_with_limit 20 store0 (snd (upcoming_appointments_for_provider env0 7 30 20 store0)) \<and>
   sent_with_limit 20 store0 (snd (patient_case_timeline env0 7 20 store0)) \<and>
   sent_with_limit 20 store0 (snd (outstanding_invoices env0 7 20 store0)) \<and>
   sent_with_limit 20 store0 (snd (claim_status_for_patient env0 7 20 store0)) \<and>
   sent_with_limit 20 store0 (snd (active_prescriptions env0 7 20 store0)) \<and>
   received (snd (search_patients env0 (Some ''ana'') None 20 store0)) =
     [(search_patients_q (dq @ ''hospital_crm'' @ dq @ ''.'' @ dq @ ''patients'' @ dq)
         '' where (first_name ILIKE %s OR last_name ILIKE %s)'',
       [T ''%ana%'', T ''%ana%'', I 20])]"
  using row_limit_is_bound_parameter [of 20 store0 env0 "Some ''ana''" None 7 30]
    search_patients_ana_statement
  by simp

lemma listing_statements:
  "received (snd (list_tables env0 store0)) = [(list_tables_q, [T ''hospital_crm''])]"
  "received (snd (get_patient_contacts env0 7 store0)) =
     [(get_patient_contacts_q (dq @ ''hospital_crm'' @ dq @ ''.'' @ dq @ ''patient_contacts'' @ dq),
       [I 7])]"
  "received (snd (allergies_for_patient env0 7 store0)) =
     [(allergies_for_patient_q (dq @ ''hospital_crm'' @ dq @ ''.'' @ dq @ ''allergies'' @ dq),
       [I 7])]"
  by (simp_all add: list_tables_def get_patient_contacts_def allergies_for_patient_def
      q_table_cases table_names_valid schema_def
      validate_ident_def is_ident_start_def is_ident_char_def env0_def store0_def
      run_statement_def get_conn_def execute_def has_nul_def opaque_def)

lemma listing_texts:
  "\<not> sublist ''limit'' list_tables_q"
  "\<not> sublist ''limit''
       (get_patient_contacts_q (dq @ ''hospital_crm'' @ dq @ ''.'' @ dq @ ''patient_contacts'' @ dq))"
  "\<not> sublist ''limit''
       (allergies_for_patient_q (dq @ ''hospital_crm'' @ dq @ ''.'' @ dq @ ''allergies'' @ dq))"
  by code_simp+

lemma listing_not_limited:
  "\<not> bound_row_limit (list_tables_q, [T ''hospital_crm''])"
  "\<not> bound_row_limit
       (get_patient_contacts_q (dq @ ''hospital_crm'' @ dq @ ''.'' @ dq @ ''patient_contacts'' @ dq),
        [I 7])"
  "\<not> bound_row_limit
       (allergies_for_patient_q (dq @ ''hospital_crm'' @ dq @ ''.'' @ dq @ ''allergies'' @ dq),
        [I 7])"
  by code_simp+

text \<open>
  C7 as stated fails: the statements of \<open>list_tables\<close>, \<open>get_patient_contacts\<close> and
  \<open>allergies_for_patient\<close> do not mention a limit and bind one parameter, the schema
  name or the patient id.
\<close>

theorem listings_without_row_limit:
  "received (snd (list_tables env0 store0)) = [(list_tables_q, [T ''hospital_crm''])] \<and>
   \<not> sublist ''limit'' list_tables_q \<and>
   \<not> bound_row_limit (list_tables_q, [T ''hospital_crm'']) \<and>
   received (snd (get_patient_contacts env0 7 store0)) =
     [(get_patient_contacts_q (dq @ ''hospital_crm'' @ dq @ ''.'' @ dq @ ''patient_contacts'' @ dq),
       [I 7])] \<and>
   \<not> sublist ''limit''
       (get_patient_contacts_q (dq @ ''hospital_crm'' @ dq @ ''.'' @ dq @ ''patient_contacts'' @ dq)) \<and>
   \<not> bound_row_limit
       (get_patient_contacts_q (dq @ ''hospital_crm'' @ dq @ ''.'' @ dq @ ''patient_contacts'' @ dq),
        [I 7]) \<and>
   received (snd (allergies_for_patient env0 7 store0)) =
     [(allergies_for_patient_q (dq @ ''hospital_crm'' @ dq @ ''.'' @ dq @ ''allergies'' @ dq),
       [I 7])] \<and>
   \<not> sublist ''limit''
       (allergies_for_patient_q (dq @ ''hospital_crm'' @ dq @ ''.'' @ dq @ ''allergies'' @ dq)) \<and>
   \<not> bound_row_limit
       (allergies_for_patient_q (dq @ ''hospital_crm'' @ dq @ ''.'' @ dq @ ''allergies'' @ dq),
        [I 7])"
  by (intro conjI listing_statements listing_texts listing_not_limited)


section \<open>Outstanding invoices\<close>

lemma set_insert_row: "set (insert_row lt ks r xs) = insert r (set xs)"
  by (induction xs) auto

lemma set_order_by: "set (order_by lt ks rows) = set rows"
  unfolding order_by_def by (induction rows) (simp_all add: set_insert_row)

lemma sql_limit_int: "0 \<le> k \<Longrightarrow> sql_limit (I k) rows = Inr (take (nat k) rows)"
  by (simp add: sql_limit_def)

lemma num_coalesce_sum:
  "num (coalesce (sql_sum vs) (I 0)) = Some (sum_list (List.map_filter num vs))"
  by (simp add: coalesce_def sql_sum_def Let_def num_def)

lemma map_filter_map: "List.map_filter f (map g xs) = List.map_filter (\<lambda>x. f (g x)) xs"
  by (induction xs) (simp_all add: List.map_filter_simps split: option.splits)

lemma paid_group:
  assumes "g \<in> set (paid_totals payments)"
  shows "col g ''paid_amount'' =
           sql_sum (map (\<lambda>p. col p ''amount'')
                      (filter (\<lambda>p. col p ''invoice_id'' = col g ''invoice_id'') payments))"
  using assms by (auto simp: paid_totals_def col_def)

lemma paid_group_exists:
  assumes "p \<in> set payments"
  shows "\<exists>g \<in> set (paid_totals payments). col g ''invoice_id'' = col p ''invoice_id''"
proof -
  let ?k = "col p ''invoice_id''"
  let ?g = "[(''invoice_id'', ?k),
             (''paid_amount'', sql_sum (map (\<lambda>p. col p ''amount'')
                (filter (\<lambda>p. col p ''invoice_id'' = ?k) payments)))]"
  from assms have "?g \<in> set (paid_totals payments)"
    by (auto simp: paid_totals_def)
  moreover have "col ?g ''invoice_id'' = ?k" by (simp add: col_def)
  ultimately show ?thesis by blast
qed

lemma invoice_line_paid:
  assumes "l \<in> set (invoices_with_paid invoices (paid_totals payments))"
  shows "fst l \<in> set invoices \<and>
         num (coalesce (snd l) (I 0)) =
           Some (sum_list (List.map_filter (\<lambda>p. num (col p ''amount''))
                   (filter (\<lambda>p. sql_eq (col p ''invoice_id'') (col (fst l) ''invoice_id''))
                      payments)))"
proof -
  from assms obtain i where i: "i \<in> set invoices" and
    l: "l \<in> set (case filter (\<lambda>g. sql_eq (col g ''invoice_id'') (col i ''invoice_id''))
                      (paid_totals payments) of
                 [] \<Rightarrow> [(i, Null)]
               | g # gs \<Rightarrow> map (\<lambda>g. (i, col g ''paid_amount'')) (g # gs))"
    by (auto simp: invoices_with_paid_def)
  let ?iid = "col i ''invoice_id''"
  let ?m = "filter (\<lambda>g. sql_eq (col g ''invoice_id'') ?iid) (paid_totals payments)"
  let ?ps = "filter (\<lambda>p. sql_eq (col p ''invoice_id'') ?iid) payments"
  show ?thesis
  proof (cases ?m)
    case Nil
    with l have le: "l = (i, Null)" by simp
    have "?ps = []"
    proof (rule ccontr)
      assume "?ps \<noteq> []"
      then obtain p where p: "p \<in> set payments" "sql_eq (col p ''invoice_id'') ?iid"
        by (auto simp: filter_empty_conv)
      from paid_group_exists [OF p(1)] obtain g where
        "g \<in> set (paid_totals payments)" "col g ''invoice_id'' = col p ''invoice_id''"
        by blast
      with p(2) have "g \<in> set ?m" by simp
      with Nil show False by simp
    qed
    with le i show ?thesis
      by (simp add: coalesce_def num_def List.map_filter_simps)
  next
    case (Cons g0 gs)
    with l obtain g where g: "g \<in> set ?m" and le: "l = (i, col g ''paid_amount'')"
      by auto
    from g have gp: "g \<in> set (paid_totals payments)" and
      eq: "sql_eq (col g ''invoice_id'') ?iid"
      by simp_all
    from eq have k: "col g ''invoice_id'' = ?iid" "?iid \<noteq> Null"
      by (simp_all add: sql_eq_def)
    then have "filter (\<lambda>p. col p ''invoice_id'' = col g ''invoice_id'') payments = ?ps"
      by (auto simp: sql_eq_def intro: filter_cong)
    with paid_group [OF gp] have
      "col g ''paid_amount'' = sql_sum (map (\<lambda>p. col p ''amount'') ?ps)"
      by simp
    with le i show ?thesis
      by (simp add: num_coalesce_sum map_filter_map)
  qed
qed

lemma positive_balance:
  assumes "sql_gt0 (sql_minus a b)" "num b = Some x"
  shows "\<exists>t. num a = Some t \<and> sql_minus a b = R (t - x) \<and> 0 < t - x"
  using assms
  by (cases "num a") (simp_all add: sql_gt0_def sql_minus_def num_def)

text \<open>
  C4. Every record \<open>outstanding_invoices\<close> returns is an invoice of the patient whose
  \<open>balance\<close> column is its total amount less the sum of its payments (zero when it
  has none), and that balance is greater than zero.
\<close>

theorem outstanding_invoices_positive_balance:
  assumes "outstanding_invoices e pid limit db = (Inr rows, db')" and "r \<in> set rows"
  shows "\<exists>i \<in> set (tables db (db_schema e, ''invoices'')). \<exists>t.
           sql_eq (col i ''patient_id'') (I pid) \<and>
           col r ''invoice_id'' = col i ''invoice_id'' \<and>
           num (col i ''total_amount'') = Some t \<and>
           col r ''balance'' = R (t - payments_total db (db_schema e) (col i ''invoice_id'')) \<and>
           0 < t - payments_total db (db_schema e) (col i ''invoice_id'')"
proof -
  let ?s = "db_schema e"
  let ?lines = "invoices_with_paid (tables db (?s, ''invoices''))
                  (paid_totals (tables db (?s, ''payments'')))"
  let ?keep = "\<lambda>l. sql_eq (col (fst l) ''patient_id'') (I pid) \<and> sql_gt0 (invoice_balance l)"
  let ?sorted = "order_by (text_less db) [(''due_at'', Asc, True), (''issued_at'', Desc, False)]
                   (map invoice_record (filter ?keep ?lines))"
  from assms(1) have lim: "1 \<le> limit"
    by (auto simp: outstanding_invoices_def split: if_splits)
  from assms(1) lim have "sql_limit (I limit) ?sorted = Inr rows"
    by (auto simp: outstanding_invoices_def run_statement_def execute_def has_nul_def
        outstanding_invoices_sem_def split: if_splits sum.splits)
  with lim have "rows = take (nat limit) ?sorted"
    by (simp add: sql_limit_int)
  with assms(2) have "r \<in> set ?sorted" by (auto dest: in_set_takeD)
  then obtain l where l: "l \<in> set ?lines" "?keep l" and r: "r = invoice_record l"
    by (auto simp: set_order_by)
  let ?i = "fst l"
  let ?paid = "payments_total db ?s (col ?i ''invoice_id'')"
  from invoice_line_paid [OF l(1)] have i: "?i \<in> set (tables db (?s, ''invoices''))" and
    p: "num (coalesce (snd l) (I 0)) = Some ?paid"
    by (simp_all add: payments_total_def)
  from l(2) have "sql_gt0 (sql_minus (col ?i ''total_amount'') (coalesce (snd l) (I 0)))"
    by (simp add: invoice_balance_def)
  from positive_balance [OF this p] obtain t where
    t: "num (col ?i ''total_amount'') = Some t"
       "invoice_balance l = R (t - ?paid)" "0 < t - ?paid"
    by (auto simp: invoice_balance_def)
  from r have "col r ''invoice_id'' = col ?i ''invoice_id''" "col r ''balance'' = invoice_balance l"
    by (simp_all add: invoice_record_def col_def)
  with i l(2) t show ?thesis by auto
qed

lemma outstanding_invoices_store2:
  "fst (outstanding_invoices env0 1 50 store2) =
     Inr [[(''invoice_id'', I 10), (''status'', Null), (''issued_at'', Null), (''due_at'', Null),
           (''total_amount'', R 100), (''paid_amount'', R 30), (''balance'', R 70)]]"
  by (simp add: outstanding_invoices_def q_table_cases table_names_valid schema_def
      validate_ident_def is_ident_start_def is_ident_char_def env0_def store0_def store2_def
      run_statement_def get_conn_def execute_def has_nul_def outstanding_invoices_sem_def
      invoices2_def payments2_def paid_totals_def invoices_with_paid_def col_def sql_eq_def
      sql_sum_def List.map_filter_simps num_def sql_gt0_def sql_minus_def coalesce_def
      invoice_balance_def invoice_record_def order_by_def key_before_def sql_limit_def)


text \<open>C4, on an input: of two invoices of patient 1, the one of 100 with 30 paid is
  returned with balance 70; the one of 50 with 20 and 30 paid is not returned.\<close>

theorem outstanding_invoices_positive_balance_witness:
  "fst (outstanding_invoices env0 1 50 store2) =
     Inr [[(''invoice_id'', I 10), (''status'', Null), (''issued_at'', Null), (''due_at'', Null),
           (''total_amount'', R 100), (''paid_amount'', R 30), (''balance'', R 70)]] \<and>
   (\<exists>i t. i \<in> set (tables store2 (db_schema env0, ''invoices'')) \<and>
      sql_eq (col i ''patient_id'') (I 1) \<and>
      col i ''invoice_id'' = I 10 \<and>
      num (col i ''total_amount'') = Some t \<and>
      R 70 = R (t - payments_total store2 (db_schema env0) (col i ''invoice_id'')) \<and>
      0 < t - payments_total store2 (db_schema env0) (col i ''invoice_id''))"
proof -
  let ?run = "outstanding_invoices env0 1 50 store2"
  let ?r = "[(''invoice_id'', I 10), (''status'', Null), (''issued_at'', Null), (''due_at'', Null),
           (''total_amount'', R 100), (''paid_amount'', R 30), (''balance'', R 70)]"
  have run: "?run = (Inr [?r], snd ?run)"
    by (rule prod_eqI) (simp_all only: fst_conv snd_conv outstanding_invoices_store2)
  have "?r \<in> set [?r]" by simp
  from outstanding_invoices_positive_balance [OF run this]
  obtain i t where "i \<in> set (tables store2 (db_schema env0, ''invoices''))"
    "sql_eq (col i ''patient_id'') (I 1)" "col ?r ''invoice_id'' = col i ''invoice_id''"
    "num (col i ''total_amount'') = Some t"
    "col ?r ''balance'' = R (t - payments_total store2 (db_schema env0) (col i ''invoice_id''))"
    "0 < t - payments_total store2 (db_schema env0) (col i ''invoice_id'')"
    by blast
  moreover have "col ?r ''invoice_id'' = I 10" "col ?r ''balance'' = R 70"
    by (simp_all add: col_def)
  ultimately have "\<exists>i t. i \<in> set (tables store2 (db_schema env0, ''invoices'')) \<and>
      sql_eq (col i ''patient_id'') (I 1) \<and>
      col i ''invoice_id'' = I 10 \<and>
      num (col i ''total_amount'') = Some t \<and>
      R 70 = R (t - payments_total store2 (db_schema env0) (col i ''invoice_id'')) \<and>
      0 < t - payments_total store2 (db_schema env0) (col i ''invoice_id'')"
    by metis
  with outstanding_invoices_store2 show ?thesis by (rule conjI)
qed


section \<open>Dates\<close>

lemma digit_not_letter: "is_digit c \<Longrightarrow> c \<noteq> CHR ''W'' \<and> c \<noteq> CHR ''-''"
  by (auto simp: is_digit_def)

lemma parse_isoformat_date_strict:
  assumes "list_all is_digit [y1, y2, y3, y4, m1, m2, d1, d2]"
  shows "parse_isoformat_date [y1, y2, y3, y4, CHR ''-'', m1, m2, CHR ''-'', d1, d2] =
           Some (decimal [y1, y2, y3, y4], decimal [m1, m2], decimal [d1, d2])"
  using assms
  by (simp add: parse_isoformat_date_def eval_nat_numeral peek_def decimal_def digit_not_letter)

lemma new_date_calendar:
  "new_date y m d = (if calendar_date y m d then Inr (Date y m d) else Inl InvalidDate)"
  by (auto simp: new_date_def calendar_date_def)

lemma fromisoformat_result:
  "fromisoformat s = Inl InvalidDate \<or>
   (\<exists>d. fromisoformat s = Inr d \<and> calendar_date (year d) (month d) (day d))"
  by (auto simp: fromisoformat_def new_date_calendar split: option.splits)

lemma fromisoformat_length:
  "length s \<noteq> 7 \<Longrightarrow> length s \<noteq> 8 \<Longrightarrow> length s \<noteq> 10 \<Longrightarrow> fromisoformat s = Inl InvalidDate"
  by (simp add: fromisoformat_def)

text \<open>What holds of the claim: no value for an absent and for an empty argument; and
  on a string of the shape \<^verbatim>\<open>YYYY-MM-DD\<close> (four digits, a dash, two digits, a dash,
  two digits) success exactly when the three numbers name a day of the calendar, with
  that date, and \<open>InvalidDate\<close> otherwise.\<close>

lemma parse_date_absent: "parse_date None = Inr None \<and> parse_date (Some []) = Inr None"
  by (simp add: parse_date_def)

lemma parse_date_dashed:
  assumes "list_all is_digit [y1, y2, y3, y4, m1, m2, d1, d2]"
  shows "parse_date (Some [y1, y2, y3, y4, CHR ''-'', m1, m2, CHR ''-'', d1, d2]) =
        (if calendar_date (decimal [y1, y2, y3, y4]) (decimal [m1, m2]) (decimal [d1, d2])
         then Inr (Some (Date (decimal [y1, y2, y3, y4]) (decimal [m1, m2]) (decimal [d1, d2])))
         else Inl InvalidDate)"
  using assms
  by (simp add: parse_date_def fromisoformat_def parse_isoformat_date_strict new_date_calendar)

lemma parse_date_length:
  "s \<noteq> [] \<Longrightarrow> length s \<noteq> 7 \<Longrightarrow> length s \<noteq> 8 \<Longrightarrow> length s \<noteq> 10 \<Longrightarrow>
     parse_date (Some s) = Inl InvalidDate"
  by (simp add: parse_date_def fromisoformat_length)

lemma parse_date_examples:
  "parse_date (Some ''2026-01-25'') = Inr (Some (Date 2026 1 25)) \<and>
   parse_date (Some ''2026-02-30'') = Inl InvalidDate \<and>
   parse_date (Some ''25/01/2026'') = Inl InvalidDate \<and>
   parse_date (Some ''2026/01/25'') = Inl InvalidDate"
  by code_simp

text \<open>
  C6. The claim: \<open>parse_date\<close> gives no value for absent or empty input and parses
  exactly the strict \<^verbatim>\<open>YYYY-MM-DD\<close> format, with no partial parsing and no other
  format accepted. The source says as much in its comment (accept \<^verbatim>\<open>YYYY-MM-DD\<close>),
  but hands the string to \<^verbatim>\<open>date.fromisoformat\<close>, which on CPython 3.11 and later
  reads more: the basic format without dashes and the ISO week date give a date, and
  so does a ten-byte string whose first eight bytes are a basic-format date, the last
  two bytes not being read.
\<close>

theorem parse_date_other_formats:
  "parse_date (Some ''20260125'') = Inr (Some (Date 2026 1 25)) \<and>
   parse_date (Some ''2026-W04-7'') = Inr (Some (Date 2026 1 25)) \<and>
   parse_date (Some ''2026012500'') = Inr (Some (Date 2026 1 25))"
  by code_simp


section \<open>Searching patients by name\<close>









lemma ascii_lower: "ascii s \<Longrightarrow> ascii (lower s)"
  by (induction s) (auto simp: ascii_def lower_def lower_char_def)














end
